theory Spec2Isabelle
  imports Main "HOL-Library.Word"
begin

unbundle bit_operations_syntax

section \<open>RiSC-32: the virtual machine (package vm)\<close>

text \<open>
  The machine words of the Go source are \<open>uint32\<close>; they are modelled as \<open>32 word\<close>,
  so that \<open>+\<close> wraps, \<open>drop_bit\<close> is \<open>>>\<close> and \<open>push_bit\<close> is \<open><<\<close>.
\<close>

type_synonym u32 = "32 word"

subsection \<open>Constants\<close>

text \<open>The opcodes of the CPU, numbered by \<open>iota\<close> from \<open>OpcodeJALR = 0\<close>.\<close>

definition vm_OpcodeJALR :: u32 where "vm_OpcodeJALR = 0"
definition vm_OpcodeADD :: u32 where "vm_OpcodeADD = 1"
definition vm_OpcodeADDI :: u32 where "vm_OpcodeADDI = 2"
definition vm_OpcodeNAND :: u32 where "vm_OpcodeNAND = 3"
definition vm_OpcodeLUI :: u32 where "vm_OpcodeLUI = 4"
definition vm_OpcodeSW :: u32 where "vm_OpcodeSW = 5"
definition vm_OpcodeLW :: u32 where "vm_OpcodeLW = 6"
definition vm_OpcodeBEQ :: u32 where "vm_OpcodeBEQ = 7"
definition vm_OpcodeWSR :: u32 where "vm_OpcodeWSR = 8"
definition vm_OpcodeRSR :: u32 where "vm_OpcodeRSR = 9"
definition vm_OpcodeIRET :: u32 where "vm_OpcodeIRET = 10"

definition MemorySize :: u32 where "MemorySize = push_bit 20 1"
definition NumStatusRegisters :: u32 where "NumStatusRegisters = 4"

definition StatusUserMode :: u32 where "StatusUserMode = 1"
definition StatusPaging :: u32 where "StatusPaging = 2"
definition StatusInterrupts :: u32 where "StatusInterrupts = 4"

definition MemoryExec :: u32 where "MemoryExec = 1"
definition MemoryWrite :: u32 where "MemoryWrite = 2"
definition MemoryRead :: u32 where "MemoryRead = 4"

definition IrqHALT :: u32 where "IrqHALT = 0"
definition IrqClock :: u32 where "IrqClock = 1"
definition IrqTTY :: u32 where "IrqTTY = 2"

definition MMClockFrequency :: u32 where "MMClockFrequency = 0x20000"
definition MMTTYStatus :: u32 where "MMTTYStatus = 0x20001"
definition MMTTYIn :: u32 where "MMTTYIn = 0x20002"
definition MMTTYOut :: u32 where "MMTTYOut = 0x20003"

definition TTYIn :: u32 where "TTYIn = 1"
definition TTYOut :: u32 where "TTYOut = 2"

subsection \<open>Errors\<close>

text \<open>
  The sentinel errors of the package. An error built with \<open>fmt.Errorf("%w: ...", e)\<close>
  wraps \<open>e\<close> (\<open>errors.Is\<close> finds it), and is modelled as \<open>e\<close>: the message is dropped.
\<close>

datatype error = ErrHalted | ErrNotPermitted | ErrSIGSEGV | ErrTTYDetach

subsection \<open>The serial TTY (tty.go)\<close>

text \<open>
  The three registers of \<open>SerialTTY\<close>. Its connection is the outside world: what one
  poll's \<open>conn.Write\<close> and \<open>conn.Read\<close> do is an input of the model.
\<close>

record SerialTTY =
  inr :: u32
  outr :: u32
  statr :: u32

datatype write_result = WriteOk | WriteTimeout | WriteFailed
datatype read_result = ReadOk "8 word" | ReadTimeout | ReadFailed

text \<open>
  What the world gives one call of \<open>Execute\<close>: the reading of \<open>time.Now()\<close>, in
  nanoseconds after the zero \<open>time.Time\<close>, and the outcome of the TTY's socket calls.
\<close>

record world =
  now :: int
  conn_write :: write_result
  conn_read :: read_result

definition InterruptPending :: "world \<Rightarrow> SerialTTY \<Rightarrow> (error + bool) \<times> SerialTTY" where
  "InterruptPending e tty =
     (if statr tty AND TTYOut \<noteq> 0 \<and> conn_write e = WriteTimeout then (Inr False, tty)
      else if statr tty AND TTYOut \<noteq> 0 \<and> conn_write e = WriteFailed then (Inl ErrTTYDetach, tty)
      else
        let tty1 = (if statr tty AND TTYOut \<noteq> 0
                    then tty\<lparr>statr := statr tty AND NOT TTYOut\<rparr> else tty)
        in if statr tty1 AND TTYIn = 0
           then (case conn_read e of
                   ReadTimeout \<Rightarrow> (Inr False, tty1)
                 | ReadFailed \<Rightarrow> (Inl ErrTTYDetach, tty1)
                 | ReadOk c \<Rightarrow>
                     let tty2 = tty1\<lparr>statr := statr tty1 OR TTYIn, inr := ucast c\<rparr>
                     in (Inr (statr tty2 AND (TTYIn OR TTYOut) \<noteq> 0), tty2))
           else (Inr (statr tty1 AND (TTYIn OR TTYOut) \<noteq> 0), tty1))"

subsection \<open>The machine state\<close>

text \<open>
  The struct \<open>VM\<close>. The Go arrays \<open>GPR [32]uint32\<close>, \<open>S [4]uint32\<close> and
  \<open>M [1<<20]uint32\<close> are indexed by \<open>uint32\<close> values and are modelled as functions
  from \<open>u32\<close>; every index the code uses is in range (register indices are masked to
  five bits, status and memory indices are checked before use, see \<open>Decode_ranges\<close>),
  so Go's index panic is never reached. \<open>LTR\<close> is a \<open>time.Time\<close>, in nanoseconds
  after the zero time, which is \<open>0\<close>.
\<close>

record VM =
  CF :: u32
  GPR :: "u32 \<Rightarrow> u32"
  IPC :: u32
  IS0 :: u32
  ISP :: u32
  LTR :: int
  M :: "u32 \<Rightarrow> u32"
  PC :: u32
  S :: "u32 \<Rightarrow> u32"
  TTY :: "SerialTTY option"

subsection \<open>Memory\<close>

text \<open>
  \<open>Memory\<close> returns a \<open>*uint32\<close>: a pointer to the clock register, to a register of
  the TTY or to a word of memory. The pointer is modelled by what it points to.
\<close>

datatype ref = RefCF | RefTTYStatus | RefTTYIn | RefTTYOut | RefM u32

definition Memory :: "VM \<Rightarrow> u32 \<Rightarrow> u32 \<Rightarrow> error + ref" where
  "Memory vm off flags =
     (if off = MMClockFrequency then Inr RefCF
      else if TTY vm \<noteq> None \<and> off = MMTTYStatus then Inr RefTTYStatus
      else if TTY vm \<noteq> None \<and> off = MMTTYIn then Inr RefTTYIn
      else if TTY vm \<noteq> None \<and> off = MMTTYOut then Inr RefTTYOut
      else if S vm 0 AND StatusPaging \<noteq> 0 then
        (if S vm 1 AND 0b1111111111 \<noteq> 0 then Inl ErrSIGSEGV
         else
           let pageid = drop_bit 10 off;
               pageoff = S vm 1 + pageid
           in if pageoff \<ge> MemorySize then Inl ErrSIGSEGV
              else
                let pageinfo = M vm pageoff;
                    pageflags = pageinfo AND 0b1111111
                in if pageflags AND flags \<noteq> flags then Inl ErrNotPermitted
                   else
                     let membase = pageinfo AND 0xFFFFFC00;
                         memoff = off AND 0x3FF;
                         off' = membase + memoff
                     in if off' \<ge> MemorySize then Inl ErrSIGSEGV else Inr (RefM off'))
      else if off \<ge> MemorySize then Inl ErrSIGSEGV
      else Inr (RefM off))"

text \<open>Reading and writing through the pointer.\<close>

definition load :: "VM \<Rightarrow> ref \<Rightarrow> u32" where
  "load vm r =
     (case r of
        RefCF \<Rightarrow> CF vm
      | RefTTYStatus \<Rightarrow> (case TTY vm of Some t \<Rightarrow> statr t | None \<Rightarrow> 0)
      | RefTTYIn \<Rightarrow> (case TTY vm of Some t \<Rightarrow> inr t | None \<Rightarrow> 0)
      | RefTTYOut \<Rightarrow> (case TTY vm of Some t \<Rightarrow> outr t | None \<Rightarrow> 0)
      | RefM a \<Rightarrow> M vm a)"

definition store :: "VM \<Rightarrow> ref \<Rightarrow> u32 \<Rightarrow> VM" where
  "store vm r v =
     (case r of
        RefCF \<Rightarrow> vm\<lparr>CF := v\<rparr>
      | RefTTYStatus \<Rightarrow> vm\<lparr>TTY := map_option (\<lambda>t. t\<lparr>statr := v\<rparr>) (TTY vm)\<rparr>
      | RefTTYIn \<Rightarrow> vm\<lparr>TTY := map_option (\<lambda>t. t\<lparr>inr := v\<rparr>) (TTY vm)\<rparr>
      | RefTTYOut \<Rightarrow> vm\<lparr>TTY := map_option (\<lambda>t. t\<lparr>outr := v\<rparr>) (TTY vm)\<rparr>
      | RefM a \<Rightarrow> vm\<lparr>M := (M vm)(a := v)\<rparr>)"

definition Fetch :: "VM \<Rightarrow> (error + u32) \<times> VM" where
  "Fetch vm =
     (case Memory vm (PC vm) (MemoryRead OR MemoryExec) of
        Inl err \<Rightarrow> (Inl err, vm)
      | Inr ci \<Rightarrow> (Inr (load vm ci), vm\<lparr>PC := PC vm + 1\<rparr>))"

subsection \<open>Decoding\<close>

definition SignExtend17 :: "u32 \<Rightarrow> u32" where
  "SignExtend17 v = (if v AND 0x10000 \<noteq> 0 then v OR 0xFFFE0000 else v)"

definition DecodeOpcode :: "u32 \<Rightarrow> u32" where
  "DecodeOpcode ci = drop_bit 27 ci AND 0b11111"

definition DecodeRA :: "u32 \<Rightarrow> u32" where
  "DecodeRA ci = drop_bit 22 ci AND 0b11111"

definition DecodeRB :: "u32 \<Rightarrow> u32" where
  "DecodeRB ci = drop_bit 17 ci AND 0b11111"

definition DecodeRC :: "u32 \<Rightarrow> u32" where
  "DecodeRC ci = ci AND 0b11111"

definition DecodeImm17 :: "u32 \<Rightarrow> u32" where
  "DecodeImm17 ci = SignExtend17 (ci AND 0x1FFFF)"

definition DecodeImm22 :: "u32 \<Rightarrow> u32" where
  "DecodeImm22 ci = ci AND 0x3FFFFF"

definition Decode :: "u32 \<Rightarrow> u32 \<times> u32 \<times> u32 \<times> u32 \<times> u32 \<times> u32" where
  "Decode ci =
     (DecodeOpcode ci, DecodeRA ci, DecodeRB ci, DecodeRC ci, DecodeImm17 ci, DecodeImm22 ci)"

subsection \<open>Interrupts\<close>

text \<open>
  \<open>Interrupt\<close> returns its error beside the state it leaves: the state is changed
  in place, also on the path that returns an error. \<open>log.Printf\<close> is not modelled.
\<close>

definition Interrupt :: "VM \<Rightarrow> u32 \<Rightarrow> error option \<times> VM" where
  "Interrupt vm code =
     (if S vm 2 AND 0b1111111111 \<noteq> 0 then (Some ErrSIGSEGV, vm)
      else if S vm 3 AND 0b1111111111 \<noteq> 0 then (Some ErrSIGSEGV, vm)
      else
        let code' = (if code \<ge> 16 then IrqHALT else code);
            vm1 = vm\<lparr>IS0 := S vm 0\<rparr>;
            vm2 = vm1\<lparr>ISP := GPR vm1 29\<rparr>;
            vm3 = vm2\<lparr>IPC := PC vm2\<rparr>;
            vm4 = vm3\<lparr>GPR := (GPR vm3)(29 := S vm3 3)\<rparr>;
            vm5 = vm4\<lparr>S := (S vm4)
                    (0 := S vm4 0 AND NOT (StatusUserMode OR StatusInterrupts OR StatusPaging))\<rparr>;
            off = S vm5 2 + code'
        in if off \<ge> MemorySize then (Some ErrSIGSEGV, vm5)
           else (None, vm5\<lparr>PC := M vm5 off\<rparr>))"

text \<open>
  \<open>now.Sub(vm.LTR).Milliseconds()\<close>: a \<open>time.Duration\<close> is an \<open>int64\<close> of
  nanoseconds, \<open>Sub\<close> saturates at its bounds, and Go's integer division truncates
  towards zero.
\<close>

definition Sub :: "int \<Rightarrow> int \<Rightarrow> int" where
  "Sub t u = max (- (2 ^ 63)) (min (2 ^ 63 - 1) (t - u))"

definition Milliseconds :: "int \<Rightarrow> int" where
  "Milliseconds d = sgn d * (\<bar>d\<bar> div 1000000)"

definition MaybeInterrupt :: "world \<Rightarrow> VM \<Rightarrow> error option \<times> VM" where
  "MaybeInterrupt e vm =
     (if S vm 0 AND StatusInterrupts = 0 then (None, vm)
      else
        let vm1 = (if CF vm > 0 \<and> LTR vm = 0 then vm\<lparr>LTR := now e\<rparr> else vm)
        in if CF vm1 > 0 \<and> Milliseconds (Sub (now e) (LTR vm1)) \<ge> uint (CF vm1)
           then Interrupt (vm1\<lparr>LTR := now e\<rparr>) IrqClock
           else
             (case TTY vm1 of
                None \<Rightarrow> (None, vm1)
              | Some tty \<Rightarrow>
                  (case InterruptPending e tty of
                     (Inl err, tty') \<Rightarrow> (Some err, vm1\<lparr>TTY := Some tty'\<rparr>)
                   | (Inr ok, tty') \<Rightarrow>
                       if ok then Interrupt (vm1\<lparr>TTY := Some tty'\<rparr>) IrqTTY
                       else (None, vm1\<lparr>TTY := Some tty'\<rparr>))))"

subsection \<open>Execute\<close>

text \<open>
  The \<open>switch\<close> of \<open>Execute\<close>: \<open>Some err\<close> is a \<open>return err\<close> inside the switch,
  \<open>None\<close> is falling out of it. The assignments are made in the source's order, so
  that \<open>jalr rA rA\<close> reads the register it has just written.
\<close>

definition Execute_switch :: "VM \<Rightarrow> u32 \<Rightarrow> error option \<times> VM" where
  "Execute_switch vm ci =
     (case Decode ci of (opcode, ra, rb, rc, imm17, imm22) \<Rightarrow>
        if opcode = vm_OpcodeJALR then
          (if ra \<noteq> 0 \<or> rb \<noteq> 0 then
             let vm1 = vm\<lparr>GPR := (GPR vm)(ra := PC vm)\<rparr>
             in (None, vm1\<lparr>PC := GPR vm1 rb\<rparr>)
           else if S vm 0 AND StatusInterrupts = 0 then (Some ErrHalted, vm)
           else Interrupt vm imm17)
        else if opcode = vm_OpcodeADD then
          (None, vm\<lparr>GPR := (GPR vm)(ra := GPR vm rb + GPR vm rc)\<rparr>)
        else if opcode = vm_OpcodeADDI then
          (None, vm\<lparr>GPR := (GPR vm)(ra := GPR vm rb + imm17)\<rparr>)
        else if opcode = vm_OpcodeNAND then
          (None, vm\<lparr>GPR := (GPR vm)(ra := NOT (GPR vm rb AND GPR vm rc))\<rparr>)
        else if opcode = vm_OpcodeLUI then
          (None, vm\<lparr>GPR := (GPR vm)(ra := push_bit 10 imm22)\<rparr>)
        else if opcode = vm_OpcodeSW \<or> opcode = vm_OpcodeLW then
          (let off = GPR vm rb + imm17;
               flags = (if opcode = vm_OpcodeSW then MemoryWrite else MemoryRead)
           in case Memory vm off flags of
                Inl err \<Rightarrow> (Some err, vm)
              | Inr mptr \<Rightarrow>
                  if opcode = vm_OpcodeSW then (None, store vm mptr (GPR vm ra))
                  else (None, vm\<lparr>GPR := (GPR vm)(ra := load vm mptr)\<rparr>))
        else if opcode = vm_OpcodeBEQ then
          (if GPR vm ra = GPR vm rb then (None, vm\<lparr>PC := PC vm + imm17\<rparr>) else (None, vm))
        else if opcode = vm_OpcodeWSR \<or> opcode = vm_OpcodeRSR then
          (if S vm 0 AND StatusUserMode \<noteq> 0 then (Some ErrNotPermitted, vm)
           else if imm22 \<ge> NumStatusRegisters then (Some ErrNotPermitted, vm)
           else if opcode = vm_OpcodeWSR then (None, vm\<lparr>S := (S vm)(imm22 := GPR vm ra)\<rparr>)
           else (None, vm\<lparr>GPR := (GPR vm)(ra := S vm imm22)\<rparr>))
        else if opcode = vm_OpcodeIRET then
          (if S vm 0 AND StatusUserMode \<noteq> 0 then (Some ErrNotPermitted, vm)
           else
             let vm1 = vm\<lparr>S := (S vm)(0 := IS0 vm)\<rparr>;
                 vm2 = vm1\<lparr>GPR := (GPR vm1)(29 := ISP vm1)\<rparr>
             in (None, vm2\<lparr>PC := IPC vm2\<rparr>))
        else (None, vm))"

text \<open>
  \<open>Execute\<close>: the switch, then \<open>MaybeInterrupt\<close> unless the switch returned, and
  last the deferred \<open>vm.GPR[0] = 0\<close>, which runs on every return.
\<close>

definition Execute :: "world \<Rightarrow> VM \<Rightarrow> u32 \<Rightarrow> error option \<times> VM" where
  "Execute e vm ci =
     (case (case Execute_switch vm ci of
              (Some err, vm1) \<Rightarrow> (Some err, vm1)
            | (None, vm1) \<Rightarrow> MaybeInterrupt e vm1)
      of (r, vm2) \<Rightarrow> (r, vm2\<lparr>GPR := (GPR vm2)(0 := 0)\<rparr>))"

section \<open>RiSC-32: the earlier revision of the machine (pkg/vm/vm.go)\<close>

text \<open>
  The file pkg/vm/vm.go of the sources is the revision before \<open>IRET\<close>, the shadows,
  the clock and the TTY: its struct has the fields \<open>GPR\<close>, \<open>M\<close>, \<open>PC\<close> and \<open>S\<close>
  only, its \<open>Memory\<close> knows no MMIO, and its \<open>Execute\<close> enters a trap inline,
  saving \<open>S[0]\<close> and \<open>PC\<close> in \<open>r26\<close> and \<open>r27\<close> and swapping \<open>S[3]\<close> with
  \<open>r29\<close>, and polls nothing. Its constants and its decoder are those above, without
  \<open>OpcodeIRET\<close>. It is modelled on the same record: the fields this revision does
  not have are neither read nor written.
\<close>

definition Memory_old :: "VM \<Rightarrow> u32 \<Rightarrow> u32 \<Rightarrow> error + ref" where
  "Memory_old vm off flags =
     (if S vm 0 AND StatusPaging \<noteq> 0 then
        (if S vm 1 AND 0b1111111111 \<noteq> 0 then Inl ErrSIGSEGV
         else
           let pageid = drop_bit 10 off;
               pageoff = S vm 1 + pageid
           in if pageoff \<ge> MemorySize then Inl ErrSIGSEGV
              else
                let pageinfo = M vm pageoff;
                    pageflags = pageinfo AND 0b1111111
                in if pageflags AND flags \<noteq> flags then Inl ErrNotPermitted
                   else
                     let membase = pageinfo AND 0xFFFFFC00;
                         memoff = off AND 0x3FF;
                         off' = membase + memoff
                     in if off' \<ge> MemorySize then Inl ErrSIGSEGV else Inr (RefM off'))
      else if off \<ge> MemorySize then Inl ErrSIGSEGV
      else Inr (RefM off))"

text \<open>
  The \<open>switch\<close> of this revision's \<open>Execute\<close>. The test \<open>imm17 < 0\<close> of the source is
  on a \<open>uint32\<close> and never holds.
\<close>

definition Execute_old_switch :: "VM \<Rightarrow> u32 \<Rightarrow> error option \<times> VM" where
  "Execute_old_switch vm ci =
     (case Decode ci of (opcode, ra, rb, rc, imm17, imm22) \<Rightarrow>
        if opcode = vm_OpcodeJALR then
          (if ra \<noteq> 0 \<or> rb \<noteq> 0 then
             let vm1 = vm\<lparr>GPR := (GPR vm)(ra := PC vm)\<rparr>
             in (None, vm1\<lparr>PC := GPR vm1 rb\<rparr>)
           else if S vm 0 AND StatusInterrupts = 0 then (Some ErrHalted, vm)
           else if S vm 2 AND 0b1111111111 \<noteq> 0 then (Some ErrSIGSEGV, vm)
           else if S vm 3 AND 0b1111111111 \<noteq> 0 then (Some ErrSIGSEGV, vm)
           else
             let imm17' = (if imm17 \<ge> 16 then 0 else imm17);
                 vm1 = vm\<lparr>GPR := (GPR vm)(26 := S vm 0)\<rparr>;
                 vm2 = vm1\<lparr>GPR := (GPR vm1)(27 := PC vm1)\<rparr>;
                 vm3 = vm2\<lparr>S := (S vm2)(3 := GPR vm2 29), GPR := (GPR vm2)(29 := S vm2 3)\<rparr>;
                 vm4 = vm3\<lparr>S := (S vm3)
                         (0 := S vm3 0 AND NOT (StatusUserMode OR StatusInterrupts OR StatusPaging))\<rparr>;
                 off = S vm4 2 + imm17'
             in if off \<ge> MemorySize then (Some ErrSIGSEGV, vm4)
                else (None, vm4\<lparr>PC := M vm4 off\<rparr>))
        else if opcode = vm_OpcodeADD then
          (None, vm\<lparr>GPR := (GPR vm)(ra := GPR vm rb + GPR vm rc)\<rparr>)
        else if opcode = vm_OpcodeADDI then
          (None, vm\<lparr>GPR := (GPR vm)(ra := GPR vm rb + imm17)\<rparr>)
        else if opcode = vm_OpcodeNAND then
          (None, vm\<lparr>GPR := (GPR vm)(ra := NOT (GPR vm rb AND GPR vm rc))\<rparr>)
        else if opcode = vm_OpcodeLUI then
          (None, vm\<lparr>GPR := (GPR vm)(ra := push_bit 10 imm22)\<rparr>)
        else if opcode = vm_OpcodeSW \<or> opcode = vm_OpcodeLW then
          (let off = GPR vm rb + imm17;
               flags = (if opcode = vm_OpcodeSW then MemoryWrite else MemoryRead)
           in case Memory_old vm off flags of
                Inl err \<Rightarrow> (Some err, vm)
              | Inr mptr \<Rightarrow>
                  if opcode = vm_OpcodeSW then (None, store vm mptr (GPR vm ra))
                  else (None, vm\<lparr>GPR := (GPR vm)(ra := load vm mptr)\<rparr>))
        else if opcode = vm_OpcodeBEQ then
          (if GPR vm ra = GPR vm rb then (None, vm\<lparr>PC := PC vm + imm17\<rparr>) else (None, vm))
        else if opcode = vm_OpcodeWSR \<or> opcode = vm_OpcodeRSR then
          (if S vm 0 AND StatusUserMode \<noteq> 0 then (Some ErrNotPermitted, vm)
           else if imm22 \<ge> NumStatusRegisters then (Some ErrNotPermitted, vm)
           else if opcode = vm_OpcodeWSR then (None, vm\<lparr>S := (S vm)(imm22 := GPR vm ra)\<rparr>)
           else (None, vm\<lparr>GPR := (GPR vm)(ra := S vm imm22)\<rparr>))
        else (None, vm))"

definition Execute_old :: "VM \<Rightarrow> u32 \<Rightarrow> error option \<times> VM" where
  "Execute_old vm ci =
     (case Execute_old_switch vm ci of
        (r, vm1) \<Rightarrow> (r, vm1\<lparr>GPR := (GPR vm1)(0 := 0)\<rparr>))"

section \<open>RiSC-32: the assembler's encoder (package asm, instruction.go)\<close>

subsection \<open>Constants and errors\<close>

text \<open>The opcodes of the assembler, numbered by \<open>iota\<close> from \<open>OpcodeHALT = 0\<close>.\<close>

definition asm_OpcodeHALT :: u32 where "asm_OpcodeHALT = 0"
definition asm_OpcodeADD :: u32 where "asm_OpcodeADD = 1"
definition asm_OpcodeADDI :: u32 where "asm_OpcodeADDI = 2"
definition asm_OpcodeNAND :: u32 where "asm_OpcodeNAND = 3"
definition asm_OpcodeLUI :: u32 where "asm_OpcodeLUI = 4"
definition asm_OpcodeSW :: u32 where "asm_OpcodeSW = 5"
definition asm_OpcodeLW :: u32 where "asm_OpcodeLW = 6"
definition asm_OpcodeBEQ :: u32 where "asm_OpcodeBEQ = 7"
definition asm_OpcodeJALR :: u32 where "asm_OpcodeJALR = 8"
definition asm_OpcodeWSR :: u32 where "asm_OpcodeWSR = 9"
definition asm_OpcodeRSR :: u32 where "asm_OpcodeRSR = 10"

text \<open>
  The errors \<open>Encode\<close> returns, and the panic of \<open>CastToUint32\<close> as a third value.
\<close>

datatype asm_error = ErrCannotEncode | ErrOutOfRange | PanicBitsOutOfRange

subsection \<open>strconv.ParseInt\<close>

text \<open>
  \<open>ResolveImmediate\<close> calls Go's \<open>strconv.ParseInt(name, 0, 64)\<close> and only asks
  whether it failed. The model follows the library: an optional sign, a base prefix
  (\<open>0b\<close>, \<open>0o\<close>, \<open>0x\<close>, or a leading \<open>0\<close> for octal), digits, and underscores
  where \<open>underscoreOK\<close> allows them; \<open>None\<close> is any error, a value outside
  \<open>int64\<close> included. Bytes are \<open>8 word\<close>, \<open>lower c\<close> is \<open>c | ('x' - 'X')\<close>.
\<close>

definition lower :: "char \<Rightarrow> 8 word" where
  "lower c = of_char c OR 0x20"

definition digit_of :: "char \<Rightarrow> nat option" where
  "digit_of c =
     (let b = (of_char c :: 8 word)
      in if 0x30 \<le> b \<and> b \<le> 0x39 then Some (unat (b - 0x30))
         else if 0x61 \<le> lower c \<and> lower c \<le> 0x7A then Some (unat (lower c - 0x61 + 10))
         else None)"

datatype saw = SawStart | SawDigit | SawUnderscore | SawOther

fun underscoreOK_loop :: "bool \<Rightarrow> saw \<Rightarrow> string \<Rightarrow> bool" where
  "underscoreOK_loop hex sw [] = (sw \<noteq> SawUnderscore)"
| "underscoreOK_loop hex sw (c # cs) =
     (if (0x30 \<le> (of_char c :: 8 word) \<and> (of_char c :: 8 word) \<le> 0x39) \<or>
         (hex \<and> 0x61 \<le> lower c \<and> lower c \<le> 0x66)
      then underscoreOK_loop hex SawDigit cs
      else if c = CHR ''_'' then
        (if sw \<noteq> SawDigit then False else underscoreOK_loop hex SawUnderscore cs)
      else if sw = SawUnderscore then False
      else underscoreOK_loop hex SawOther cs)"

definition underscoreOK :: "string \<Rightarrow> bool" where
  "underscoreOK s0 =
     (let s = (case s0 of c # cs \<Rightarrow> if c = CHR ''-'' \<or> c = CHR ''+'' then cs else s0
               | [] \<Rightarrow> s0)
      in case s of
           c # d # cs \<Rightarrow>
             if c = CHR ''0'' \<and> (lower d = 0x62 \<or> lower d = 0x6F \<or> lower d = 0x78)
             then underscoreOK_loop (lower d = 0x78) SawDigit cs
             else underscoreOK_loop False SawStart s
         | _ \<Rightarrow> underscoreOK_loop False SawStart s)"

fun ParseUint_loop :: "nat \<Rightarrow> string \<Rightarrow> nat \<Rightarrow> nat option" where
  "ParseUint_loop base [] n = Some n"
| "ParseUint_loop base (c # cs) n =
     (if c = CHR ''_'' then ParseUint_loop base cs n
      else case digit_of c of
             None \<Rightarrow> None
           | Some d \<Rightarrow> if d \<ge> base then None else ParseUint_loop base cs (n * base + d))"

definition ParseUint :: "string \<Rightarrow> nat option" where
  "ParseUint s =
     (case s of
        [] \<Rightarrow> None
      | c # cs \<Rightarrow>
          let (base, digits) =
                (if c = CHR ''0'' then
                   (if length s \<ge> 3 \<and> lower (s ! 1) = 0x62 then (2, drop 2 s)
                    else if length s \<ge> 3 \<and> lower (s ! 1) = 0x6F then (8, drop 2 s)
                    else if length s \<ge> 3 \<and> lower (s ! 1) = 0x78 then (16, drop 2 s)
                    else (8, cs))
                 else (10, s))
          in case ParseUint_loop base digits 0 of
               None \<Rightarrow> None
             | Some n \<Rightarrow>
                 if CHR ''_'' \<in> set digits \<and> \<not> underscoreOK s then None
                 else if n \<ge> 2 ^ 64 then None
                 else Some n)"

definition ParseInt :: "string \<Rightarrow> int option" where
  "ParseInt s =
     (case s of
        [] \<Rightarrow> None
      | c # cs \<Rightarrow>
          let neg = (c = CHR ''-'');
              s' = (if c = CHR ''+'' \<or> c = CHR ''-'' then cs else s)
          in case ParseUint s' of
               None \<Rightarrow> None
             | Some un \<Rightarrow>
                 if \<not> neg \<and> un \<ge> 2 ^ 63 then None
                 else if neg \<and> un > 2 ^ 63 then None
                 else Some (if neg then - int un else int un))"

subsection \<open>Immediates\<close>

definition CastToUint32 :: "int \<Rightarrow> int \<Rightarrow> int \<Rightarrow> asm_error + u32" where
  "CastToUint32 v bits lineno =
     (if bits < 1 \<or> bits > 32 then Inl PanicBitsOutOfRange
      else if v < - (2 ^ nat (bits - 1)) \<or> v > 2 ^ nat (bits - 1) - 1 then Inl ErrOutOfRange
      else Inr (word_of_int v))"

definition ResolveImmediate :: "(string \<rightharpoonup> int) \<Rightarrow> string \<Rightarrow> int \<Rightarrow> int \<Rightarrow> asm_error + u32" where
  "ResolveImmediate labels name bits lineno =
     (case ParseInt name of
        Some v \<Rightarrow> CastToUint32 v bits lineno
      | None \<Rightarrow>
          (case labels name of
             None \<Rightarrow> Inl ErrCannotEncode
           | Some v \<Rightarrow> CastToUint32 v bits lineno))"

subsection \<open>Instructions and their encoding\<close>

text \<open>
  One constructor for each struct that implements the interface \<open>Instruction\<close>, with
  the struct's fields in the source's order: \<open>Lineno\<close>, \<open>MaybeLabel\<close>, then the
  registers and the immediate (a string: a literal or a label).
\<close>

datatype Instruction =
    InstructionErr asm_error int
  | InstructionADD int "string option" u32 u32 u32
  | InstructionADDI int "string option" u32 u32 string
  | InstructionNAND int "string option" u32 u32 u32
  | InstructionLUI int "string option" u32 string
  | InstructionSW int "string option" u32 u32 string
  | InstructionLW int "string option" u32 u32 string
  | InstructionBEQ int "string option" u32 u32 string
  | InstructionJALR int "string option" u32 u32
  | InstructionHALT int "string option"
  | InstructionLLI int "string option" u32 string
  | InstructionDATA int "string option" u32
  | InstructionWSR int "string option" u32 string
  | InstructionRSR int "string option" u32 string

text \<open>
  \<open>Encode(labels, pc)\<close>, one equation for each method. \<open>out\<close> starts at \<open>0\<close> and
  each \<open>out |= x\<close> is an \<open>OR\<close>.
\<close>

fun Encode :: "(string \<rightharpoonup> int) \<Rightarrow> Instruction \<Rightarrow> u32 \<Rightarrow> asm_error + u32" where
  "Encode labels (InstructionErr err lineno) pc = Inl ErrCannotEncode"
| "Encode labels (InstructionADD lineno lbl ra rb rc) pc =
     Inr (0 OR push_bit 27 (asm_OpcodeADD AND 0b11111) OR push_bit 22 (ra AND 0b11111)
            OR push_bit 17 (rb AND 0b11111) OR (rc AND 0b11111))"
| "Encode labels (InstructionADDI lineno lbl ra rb imm) pc =
     (let out = 0 OR push_bit 27 (asm_OpcodeADDI AND 0b11111) OR push_bit 22 (ra AND 0b11111)
                  OR push_bit 17 (rb AND 0b11111)
      in case ResolveImmediate labels imm 17 lineno of
           Inl err \<Rightarrow> Inl err
         | Inr v \<Rightarrow> Inr (out OR (v AND 0x1FFFF)))"
| "Encode labels (InstructionNAND lineno lbl ra rb rc) pc =
     Inr (0 OR push_bit 27 (asm_OpcodeNAND AND 0b11111) OR push_bit 22 (ra AND 0b11111)
            OR push_bit 17 (rb AND 0b11111) OR (rc AND 0b11111))"
| "Encode labels (InstructionLUI lineno lbl ra imm) pc =
     (let out = 0 OR push_bit 27 (asm_OpcodeLUI AND 0b11111) OR push_bit 22 (ra AND 0b11111)
      in case ResolveImmediate labels imm 32 lineno of
           Inl err \<Rightarrow> Inl err
         | Inr v \<Rightarrow> Inr (out OR drop_bit 10 v))"
| "Encode labels (InstructionSW lineno lbl ra rb imm) pc =
     (let out = 0 OR push_bit 27 (asm_OpcodeSW AND 0b11111) OR push_bit 22 (ra AND 0b11111)
                  OR push_bit 17 (rb AND 0b11111)
      in case ResolveImmediate labels imm 17 lineno of
           Inl err \<Rightarrow> Inl err
         | Inr v \<Rightarrow> Inr (out OR (v AND 0x1FFFF)))"
| "Encode labels (InstructionLW lineno lbl ra rb imm) pc =
     (let out = 0 OR push_bit 27 (asm_OpcodeLW AND 0b11111) OR push_bit 22 (ra AND 0b11111)
                  OR push_bit 17 (rb AND 0b11111)
      in case ResolveImmediate labels imm 17 lineno of
           Inl err \<Rightarrow> Inl err
         | Inr v \<Rightarrow> Inr (out OR (v AND 0x1FFFF)))"
| "Encode labels (InstructionBEQ lineno lbl ra rb imm) pc =
     (let out = 0 OR push_bit 27 (asm_OpcodeBEQ AND 0b11111) OR push_bit 22 (ra AND 0b11111)
                  OR push_bit 17 (rb AND 0b11111)
      in case ResolveImmediate labels imm 32 lineno of
           Inl err \<Rightarrow> Inl err
         | Inr v \<Rightarrow>
             (let target = uint v - uint pc - 1
              in case CastToUint32 target 17 lineno of
                   Inl err \<Rightarrow> Inl err
                 | Inr offset \<Rightarrow> Inr (out OR (offset AND 0x1FFFF))))"
| "Encode labels (InstructionJALR lineno lbl ra rb) pc =
     Inr (0 OR push_bit 27 (asm_OpcodeJALR AND 0b11111) OR push_bit 22 (ra AND 0b11111)
            OR push_bit 17 (rb AND 0b11111))"
| "Encode labels (InstructionHALT lineno lbl) pc =
     Inr (0 OR push_bit 27 (asm_OpcodeHALT AND 0b11111))"
| "Encode labels (InstructionLLI lineno lbl ra imm) pc =
     (let out = 0 OR push_bit 27 (asm_OpcodeADDI AND 0b11111) OR push_bit 22 (ra AND 0b11111)
                  OR push_bit 17 (ra AND 0b11111)
      in case ResolveImmediate labels imm 32 lineno of
           Inl err \<Rightarrow> Inl err
         | Inr v \<Rightarrow> Inr (out OR (v AND 0x3FF)))"
| "Encode labels (InstructionDATA lineno lbl v) pc = Inr v"
| "Encode labels (InstructionWSR lineno lbl ra imm) pc =
     (let out = 0 OR push_bit 27 (asm_OpcodeWSR AND 0b11111) OR push_bit 22 (ra AND 0b11111)
      in case ResolveImmediate labels imm 32 lineno of
           Inl err \<Rightarrow> Inl err
         | Inr v \<Rightarrow> Inr (out OR drop_bit 10 v))"
| "Encode labels (InstructionRSR lineno lbl ra imm) pc =
     (let out = 0 OR push_bit 27 (asm_OpcodeRSR AND 0b11111) OR push_bit 22 (ra AND 0b11111)
      in case ResolveImmediate labels imm 32 lineno of
           Inl err \<Rightarrow> Inl err
         | Inr v \<Rightarrow> Inr (out OR drop_bit 10 v))"

section \<open>Notions the properties are stated with\<close>

subsection \<open>The interrupt poll\<close>

text \<open>
  The clock is due: the condition under which \<open>MaybeInterrupt\<close> raises \<open>IrqClock\<close>,
  with \<open>LTR\<close> first set to the current time when it is the zero time.
\<close>

definition clock_due :: "world \<Rightarrow> VM \<Rightarrow> bool" where
  "clock_due e vm =
     (CF vm > 0 \<and>
      Milliseconds (Sub (now e) (if LTR vm = 0 then now e else LTR vm)) \<ge> uint (CF vm))"

text \<open>
  The poll of \<open>MaybeInterrupt\<close> in state \<open>vm\<close> raises an interrupt: interrupts are
  enabled, and the clock is due or the attached TTY reports one pending.
\<close>

definition poll_raises :: "world \<Rightarrow> VM \<Rightarrow> bool" where
  "poll_raises e vm =
     (S vm 0 AND StatusInterrupts \<noteq> 0 \<and>
      (clock_due e vm \<or>
       (case TTY vm of
          None \<Rightarrow> False
        | Some tty \<Rightarrow> fst (InterruptPending e tty) = Inr True)))"

text \<open>
  No device has an interrupt pending: the clock is not due and the TTY, when one is
  attached, answers the poll with \<open>(false, nil)\<close>.
\<close>

definition no_device_pending :: "world \<Rightarrow> VM \<Rightarrow> bool" where
  "no_device_pending e vm =
     (\<not> clock_due e vm \<and>
      (case TTY vm of
         None \<Rightarrow> True
       | Some tty \<Rightarrow> fst (InterruptPending e tty) = Inr False))"

subsection \<open>Decoding a word and encoding it again\<close>

text \<open>
  The round trip of a word through \<open>Decode\<close> and the assembler: the instruction of
  the mnemonic that \<open>Disassemble\<close> prints for the opcode is built from the decoded
  register fields and encoded at address \<open>pc\<close>. The immediate operand of the
  assembler is a string, \<open>imm\<close>; the properties below say which number it spells.
  \<open>None\<close>: the assembler has no instruction for the opcode (\<open>IRET\<close> and the opcodes
  beyond it).
\<close>

definition Reencode :: "(string \<rightharpoonup> int) \<Rightarrow> u32 \<Rightarrow> string \<Rightarrow> u32 \<Rightarrow> (asm_error + u32) option" where
  "Reencode labels pc imm w =
     (case Decode w of (opcode, ra, rb, rc, imm17, imm22) \<Rightarrow>
        if opcode = vm_OpcodeADD then Some (Encode labels (InstructionADD 0 None ra rb rc) pc)
        else if opcode = vm_OpcodeADDI then Some (Encode labels (InstructionADDI 0 None ra rb imm) pc)
        else if opcode = vm_OpcodeNAND then Some (Encode labels (InstructionNAND 0 None ra rb rc) pc)
        else if opcode = vm_OpcodeLUI then Some (Encode labels (InstructionLUI 0 None ra imm) pc)
        else if opcode = vm_OpcodeSW then Some (Encode labels (InstructionSW 0 None ra rb imm) pc)
        else if opcode = vm_OpcodeLW then Some (Encode labels (InstructionLW 0 None ra rb imm) pc)
        else if opcode = vm_OpcodeBEQ then Some (Encode labels (InstructionBEQ 0 None ra rb imm) pc)
        else if opcode = vm_OpcodeJALR then Some (Encode labels (InstructionJALR 0 None ra rb) pc)
        else if opcode = vm_OpcodeWSR then Some (Encode labels (InstructionWSR 0 None ra imm) pc)
        else if opcode = vm_OpcodeRSR then Some (Encode labels (InstructionRSR 0 None ra imm) pc)
        else None)"

subsection \<open>Concrete machines\<close>

text \<open>\<open>new(VM)\<close>: every field has its zero value, no TTY is attached.\<close>

definition new_VM :: VM where
  "new_VM = \<lparr>CF = 0, GPR = (\<lambda>_. 0), IPC = 0, IS0 = 0, ISP = 0, LTR = 0,
             M = (\<lambda>_. 0), PC = 0, S = (\<lambda>_. 0), TTY = None\<rparr>"

text \<open>
  A machine in user mode with paging and interrupts on: the vector table is at 1024,
  vector 2 points to 4000, where an \<open>iret\<close> stands; the interrupt stack is at 2048.
\<close>

definition irq_VM :: VM where
  "irq_VM = new_VM\<lparr>GPR := (\<lambda>_. 0)(29 := 500),
                   M := (\<lambda>_. 0)(1026 := 4000, 4000 := 0x50000000),
                   PC := 9,
                   S := (\<lambda>_. 0)(0 := 7, 2 := 1024, 3 := 2048)\<rparr>"

text \<open>The same machine after interrupt 2 has been entered, and after the next fetch.\<close>

definition entered_VM :: VM where
  "entered_VM = irq_VM\<lparr>IS0 := 7, ISP := 500, IPC := 9,
                       GPR := (\<lambda>_. 0)(29 := 2048),
                       S := (\<lambda>_. 0)(0 := 0, 2 := 1024, 3 := 2048),
                       PC := 4000\<rparr>"

definition fetched_VM :: VM where
  "fetched_VM = entered_VM\<lparr>PC := 4001\<rparr>"

text \<open>A machine whose vector table base is not a multiple of 1024.\<close>

definition misaligned_VM :: VM where
  "misaligned_VM = new_VM\<lparr>S := (\<lambda>_. 0)(2 := 5)\<rparr>"

text \<open>A machine whose vector table base, \<open>1 << 20\<close>, is aligned and outside memory.\<close>

definition badvec_VM :: VM where
  "badvec_VM = new_VM\<lparr>GPR := (\<lambda>_. 0)(29 := 5), S := (\<lambda>_. 0)(2 := 0x100000)\<rparr>"

text \<open>
  The machine that testdata/paging.asm sets up: paging on, the page table at 1024,
  page 0 mapped to itself as \<open>r-x\<close>, page 1 mapped to page 10 as \<open>rw-\<close>.
\<close>

definition paging_VM :: VM where
  "paging_VM = new_VM\<lparr>M := (\<lambda>_. 0)(1024 := 5, 1025 := 10246),
                      S := (\<lambda>_. 0)(0 := 2, 1 := 1024)\<rparr>"

text \<open>A world in which the clock reads 0 and the TTY's socket has nothing to read.\<close>

definition quiet_world :: world where
  "quiet_world = \<lparr>now = 0, conn_write = WriteOk, conn_read = ReadTimeout\<rparr>"

section \<open>Auxiliary facts\<close>

subsection \<open>The constants, unfolded\<close>

lemmas vm_opcodes =
  vm_OpcodeJALR_def vm_OpcodeADD_def vm_OpcodeADDI_def vm_OpcodeNAND_def
  vm_OpcodeLUI_def vm_OpcodeSW_def vm_OpcodeLW_def vm_OpcodeBEQ_def
  vm_OpcodeWSR_def vm_OpcodeRSR_def vm_OpcodeIRET_def

lemmas vm_consts =
  MemorySize_def NumStatusRegisters_def StatusUserMode_def StatusPaging_def
  StatusInterrupts_def MemoryExec_def MemoryWrite_def MemoryRead_def
  IrqHALT_def IrqClock_def IrqTTY_def MMClockFrequency_def MMTTYStatus_def
  MMTTYIn_def MMTTYOut_def TTYIn_def TTYOut_def

lemmas asm_opcodes =
  asm_OpcodeHALT_def asm_OpcodeADD_def asm_OpcodeADDI_def asm_OpcodeNAND_def
  asm_OpcodeLUI_def asm_OpcodeSW_def asm_OpcodeLW_def asm_OpcodeBEQ_def
  asm_OpcodeJALR_def asm_OpcodeWSR_def asm_OpcodeRSR_def

subsection \<open>Bit masks\<close>

lemma mask5: "(0b11111 :: u32) = mask 5"
  by (simp add: mask_eq_exp_minus_1)

lemma mask10: "(0x3FF :: u32) = mask 10"
  by (simp add: mask_eq_exp_minus_1)

lemma mask17: "(0x1FFFF :: u32) = mask 17"
  by (simp add: mask_eq_exp_minus_1)

lemma not_mask10: "(0xFFFFFC00 :: u32) = NOT (mask 10)"
  by (simp add: mask_eq_exp_minus_1)

lemma not_mask17: "(0xFFFE0000 :: u32) = NOT (mask 17)"
  by (simp add: mask_eq_exp_minus_1)

lemma bit16: "(v AND (0x10000 :: u32) \<noteq> 0) = bit v 16"
proof -
  have "(0x10000 :: u32) = push_bit 16 1" by simp
  then show ?thesis by (simp only: bit_iff_and_push_bit_not_eq_0)
qed

text \<open>Every register index that \<open>Decode\<close> yields is below 32, the opcode too.\<close>

lemma Decode_ranges:
  "DecodeOpcode ci < 32 \<and> DecodeRA ci < 32 \<and> DecodeRB ci < 32 \<and> DecodeRC ci < 32"
proof -
  have "\<And>x :: u32. x AND 0b11111 < 32"
  proof -
    fix x :: u32
    have "x AND 0b11111 \<le> 0b11111" by (rule word_and_le1)
    then show "x AND 0b11111 < 32" by (simp add: word_le_nat_alt word_less_nat_alt)
  qed
  then show ?thesis
    by (simp add: DecodeOpcode_def DecodeRA_def DecodeRB_def DecodeRC_def)
qed

subsection \<open>Fields of a word\<close>

lemma recompose_RRI:
  "push_bit 27 (DecodeOpcode w AND 0b11111) OR push_bit 22 (DecodeRA w AND 0b11111)
     OR push_bit 17 (DecodeRB w AND 0b11111) OR (w AND 0x1FFFF) = w"
  unfolding DecodeOpcode_def DecodeRA_def DecodeRB_def mask5 mask17
proof (rule bit_word_eqI)
  fix n assume "n < LENGTH(32)"
  then consider "n < 17" | "17 \<le> n \<and> n < 22" | "22 \<le> n \<and> n < 27" | "27 \<le> n \<and> n < 32"
    by fastforce
  then show "bit (push_bit 27 ((drop_bit 27 w AND mask 5) AND mask 5)
      OR push_bit 22 ((drop_bit 22 w AND mask 5) AND mask 5)
      OR push_bit 17 ((drop_bit 17 w AND mask 5) AND mask 5) OR (w AND mask 17)) n = bit w n"
    by cases (auto simp: bit_simps)
qed

text \<open>The twelve unused bits of the RRR format are bits 5 to 16.\<close>

lemma low17_RRR:
  assumes "w AND 0x1FFE0 = 0"
  shows "w AND 0x1FFFF = DecodeRC w AND 0b11111"
proof -
  have split: "w AND 0x1FFFF = (w AND 0x1FFE0) OR (w AND 0b11111)"
  proof -
    have "(0x1FFFF :: u32) = 0x1FFE0 OR 0b11111" by simp
    then show ?thesis by (simp only: bit.conj_disj_distrib)
  qed
  show ?thesis
    by (simp add: split assms DecodeRC_def)
qed

lemma recompose_RRR:
  assumes "w AND 0x1FFE0 = 0"
  shows "push_bit 27 (DecodeOpcode w AND 0b11111) OR push_bit 22 (DecodeRA w AND 0b11111)
     OR push_bit 17 (DecodeRB w AND 0b11111) OR (DecodeRC w AND 0b11111) = w"
  using recompose_RRI [of w] by (simp add: low17_RRR [OF assms])

lemma DecodeImm17_low: "DecodeImm17 w AND 0x1FFFF = w AND 0x1FFFF"
  unfolding DecodeImm17_def SignExtend17_def bit16 mask17 not_mask17
  by (rule bit_word_eqI) (auto simp: bit_simps)

lemma DecodeImm17_signed: "DecodeImm17 w = signed_take_bit 16 w"
  unfolding DecodeImm17_def SignExtend17_def bit16 mask17 not_mask17
proof (rule bit_word_eqI)
  fix n assume "n < LENGTH(32)"
  then consider "n < 16" | "n = 16" | "16 < n \<and> n < 32"
    by fastforce
  then show "bit (if bit (w AND mask 17) 16 then (w AND mask 17) OR NOT (mask 17)
                  else w AND mask 17) n = bit (signed_take_bit 16 w) n"
    by cases (auto simp: bit_simps min_def)
qed

text \<open>The decoded 17-bit immediate, read as signed, is in \<open>[-2^16, 2^16 - 1]\<close>.\<close>

lemma sint_DecodeImm17: "- 65536 \<le> sint (DecodeImm17 w) \<and> sint (DecodeImm17 w) \<le> 65535"
proof -
  have "sint (DecodeImm17 w) = signed_take_bit 16 (sint w)"
    unfolding DecodeImm17_signed
    by (rule bit_eqI) (auto simp: bit_simps min_def bit_sint_iff)
  moreover have "- (2 ^ 16) \<le> signed_take_bit 16 (sint w)"
    by (rule signed_take_bit_int_greater_eq_minus_exp)
  moreover have "signed_take_bit 16 (sint w) < 2 ^ 16"
    by (rule signed_take_bit_int_less_exp)
  ultimately show ?thesis by simp
qed

text \<open>An immediate that spells the decoded 17-bit field is resolved to that field.\<close>

lemma ResolveImmediate_imm17:
  assumes "ParseInt imm = Some (sint (DecodeImm17 w))"
  shows "ResolveImmediate labels imm 17 lineno = Inr (DecodeImm17 w)"
  using sint_DecodeImm17 [of w]
  by (simp add: ResolveImmediate_def assms CastToUint32_def)

subsection \<open>Paging\<close>

lemma page_add_or:
  "(entry AND 0xFFFFFC00) + (addr AND 0x3FF) = (entry AND 0xFFFFFC00) OR (addr AND (0x3FF :: u32))"
  unfolding mask10 not_mask10
  by (rule disjunctive_add) (simp add: bit_simps)

lemma aligned_iff: "(x AND (0x3FF :: u32) = 0) = (1024 dvd unat x)"
proof -
  have "x AND mask 10 = take_bit 10 x"
    by (simp add: take_bit_eq_mask)
  moreover have "unat (take_bit 10 x) = take_bit 10 (unat x)"
    by (rule unsigned_take_bit_eq)
  moreover have "take_bit 10 (unat x) = unat x mod 2 ^ 10"
    by (rule take_bit_eq_mod)
  ultimately have "unat (x AND mask 10) = unat x mod 2 ^ 10"
    by simp
  then have "(x AND mask 10 = 0) = (unat x mod 2 ^ 10 = 0)"
    by (metis unat_eq_0)
  then show ?thesis unfolding mask10 by (simp add: dvd_eq_mod_eq_0)
qed

lemma flags_rwx:
  assumes "flags AND (MemoryRead OR MemoryWrite OR MemoryExec) = flags"
  shows "((pageinfo AND 0b1111111) AND flags = flags) = (pageinfo AND flags = flags)"
proof -
  have f: "flags AND 7 = flags" using assms by (simp add: vm_consts)
  have "(pageinfo AND 0b1111111) AND flags = (pageinfo AND 0b1111111) AND (flags AND 7)"
    by (simp add: f)
  also have "\<dots> = pageinfo AND (flags AND 7)"
  proof -
    have m: "(0b1111111 :: u32) = mask 7" "(7 :: u32) = mask 3"
      by (simp_all add: mask_eq_exp_minus_1)
    show ?thesis unfolding m by (rule bit_word_eqI) (auto simp: bit_simps)
  qed
  finally show ?thesis by (simp add: f)
qed

lemma MemorySize_unat: "unat MemorySize = 2 ^ 20"
  by (simp add: MemorySize_def)

lemma MemorySize_le: "(MemorySize \<le> x) = (2 ^ 20 \<le> unat x)"
  by (simp add: word_le_nat_alt MemorySize_unat)

subsection \<open>Interrupt entry and the poll\<close>

lemma flags_cleared:
  "(x AND NOT (StatusUserMode OR StatusInterrupts OR StatusPaging)) AND StatusUserMode = 0"
  "(x AND NOT (StatusUserMode OR StatusInterrupts OR StatusPaging)) AND StatusInterrupts = 0"
  "(x AND NOT (StatusUserMode OR StatusInterrupts OR StatusPaging)) AND StatusPaging = 0"
  by (simp_all add: vm_consts and.assoc)

lemma Interrupt_success:
  assumes "Interrupt vm code = (None, vm')"
  shows "vm' = vm\<lparr>IS0 := S vm 0, ISP := GPR vm 29, IPC := PC vm,
                  GPR := (GPR vm)(29 := S vm 3),
                  S := (S vm)(0 := S vm 0 AND NOT (StatusUserMode OR StatusInterrupts OR StatusPaging)),
                  PC := M vm (S vm 2 + (if code < 16 then code else 0))\<rparr>"
  using assms
  by (auto simp: Interrupt_def Let_def IrqHALT_def split: if_splits)

lemma Interrupt_failure:
  assumes "Interrupt vm code = (Some err, vm')"
  shows "err = ErrSIGSEGV \<and>
         (if S vm 2 AND 0x3FF \<noteq> 0 \<or> S vm 3 AND 0x3FF \<noteq> 0 then vm' = vm
          else vm' = vm\<lparr>IS0 := S vm 0, ISP := GPR vm 29, IPC := PC vm,
                         GPR := (GPR vm)(29 := S vm 3),
                         S := (S vm)(0 := S vm 0 AND NOT (StatusUserMode OR StatusInterrupts OR StatusPaging))\<rparr>)"
  using assms
  by (auto simp: Interrupt_def Let_def split: if_splits)

lemma Fetch_success:
  assumes "Fetch vm = (Inr ci, vm')"
  shows "vm' = vm\<lparr>PC := PC vm + 1\<rparr>"
  using assms by (auto simp: Fetch_def split: sum.splits)

lemma Milliseconds_Sub_self: "Milliseconds (Sub t t) = 0"
  by (simp add: Milliseconds_def Sub_def)

text \<open>A poll that finds interrupts off or no device pending returns \<open>nil\<close>.\<close>

lemma MaybeInterrupt_quiet:
  assumes "S vm 0 AND StatusInterrupts = 0 \<or> no_device_pending e vm"
  shows "fst (MaybeInterrupt e vm) = None \<and> PC (snd (MaybeInterrupt e vm)) = PC vm
    \<and> M (snd (MaybeInterrupt e vm)) = M vm \<and> S (snd (MaybeInterrupt e vm)) = S vm
    \<and> GPR (snd (MaybeInterrupt e vm)) = GPR vm"
  using assms
  by (auto simp: MaybeInterrupt_def no_device_pending_def clock_due_def Let_def
        Milliseconds_Sub_self
      split: option.splits prod.splits sum.splits if_splits)

text \<open>A poll that raises no interrupt leaves the registers and the memory alone.\<close>

lemma MaybeInterrupt_not_raised:
  assumes "\<not> poll_raises e vm"
  shows "PC (snd (MaybeInterrupt e vm)) = PC vm
    \<and> M (snd (MaybeInterrupt e vm)) = M vm \<and> S (snd (MaybeInterrupt e vm)) = S vm
    \<and> GPR (snd (MaybeInterrupt e vm)) = GPR vm"
  using assms
  by (auto simp: MaybeInterrupt_def poll_raises_def clock_due_def Let_def
        Milliseconds_Sub_self
      split: option.splits prod.splits sum.splits if_splits)

subsection \<open>Where \<open>ErrHalted\<close> comes from\<close>

lemma Memory_not_Halted: "Memory vm off flags \<noteq> Inl ErrHalted"
  by (simp add: Memory_def Let_def)

lemma Memory_case_Halted:
  "(fst (case Memory vm off flags of Inl err \<Rightarrow> (Some err, vm') | Inr mptr \<Rightarrow> g mptr)
      = Some ErrHalted) =
   (\<exists>m. Memory vm off flags = Inr m \<and> fst (g m) = Some ErrHalted)"
  using Memory_not_Halted [of vm off flags]
  by (cases "Memory vm off flags") auto

lemma Interrupt_not_Halted: "fst (Interrupt vm code) \<noteq> Some ErrHalted"
  by (simp add: Interrupt_def Let_def)

lemma InterruptPending_error:
  "InterruptPending e tty = (Inl x, tty') \<Longrightarrow> x = ErrTTYDetach"
  by (auto simp: InterruptPending_def Let_def split: if_splits read_result.splits)

lemma MaybeInterrupt_not_Halted: "fst (MaybeInterrupt e vm) \<noteq> Some ErrHalted"
proof (cases "S vm 0 AND StatusInterrupts = 0")
  case True
  then show ?thesis by (simp add: MaybeInterrupt_def)
next
  case False
  define vm1 where "vm1 = (if CF vm > 0 \<and> LTR vm = 0 then vm\<lparr>LTR := now e\<rparr> else vm)"
  show ?thesis
  proof (cases "CF vm1 > 0 \<and> Milliseconds (Sub (now e) (LTR vm1)) \<ge> uint (CF vm1)")
    case True
    with False show ?thesis
      unfolding MaybeInterrupt_def Let_def vm1_def [symmetric]
      by (simp add: Interrupt_not_Halted)
  next
    case nodue: False
    show ?thesis
    proof (cases "TTY vm1")
      case None
      with False nodue show ?thesis
        unfolding MaybeInterrupt_def Let_def vm1_def [symmetric]
        by (simp add: Interrupt_not_Halted)
    next
      case (Some tty)
      obtain r tty' where ip: "InterruptPending e tty = (r, tty')"
        by (cases "InterruptPending e tty")
      show ?thesis
      proof (cases r)
        case (Inl err)
        with ip have "err = ErrTTYDetach" by (simp add: InterruptPending_error)
        with False nodue Some ip Inl show ?thesis
          unfolding MaybeInterrupt_def Let_def vm1_def [symmetric]
          by (simp add: Interrupt_not_Halted)
      next
        case (Inr ok)
        with False nodue Some ip show ?thesis
          unfolding MaybeInterrupt_def Let_def vm1_def [symmetric]
          by (simp add: Interrupt_not_Halted)
      qed
    qed
  qed
qed

lemma Execute_switch_Halted:
  "(fst (Execute_switch vm w) = Some ErrHalted) =
   (DecodeOpcode w = vm_OpcodeJALR \<and> DecodeRA w = 0 \<and> DecodeRB w = 0 \<and>
    S vm 0 AND StatusInterrupts = 0)"
proof (cases "DecodeOpcode w = vm_OpcodeJALR")
  case True
  then show ?thesis
    by (auto simp: Execute_switch_def Decode_def Let_def Interrupt_not_Halted)
next
  case False
  have "fst (Execute_switch vm w) \<noteq> Some ErrHalted"
    using False
    by (simp add: Execute_switch_def Decode_def Let_def vm_opcodes Memory_case_Halted)
  with False show ?thesis by simp
qed

subsection \<open>Single instructions\<close>

lemma Execute_switch_undefined:
  assumes "DecodeOpcode w > 10"
  shows "Execute_switch vm w = (None, vm)"
proof -
  have "DecodeOpcode w \<noteq> 0" "DecodeOpcode w \<noteq> 1" "DecodeOpcode w \<noteq> 2"
    "DecodeOpcode w \<noteq> 3" "DecodeOpcode w \<noteq> 4" "DecodeOpcode w \<noteq> 5"
    "DecodeOpcode w \<noteq> 6" "DecodeOpcode w \<noteq> 7" "DecodeOpcode w \<noteq> 8"
    "DecodeOpcode w \<noteq> 9" "DecodeOpcode w \<noteq> 10"
    using assms by auto
  then show ?thesis
    by (simp add: Execute_switch_def Decode_def vm_opcodes)
qed

lemma Execute_switch_IRET:
  assumes "DecodeOpcode ci = vm_OpcodeIRET" and "S vm 0 AND StatusUserMode = 0"
  shows "Execute_switch vm ci =
           (None, vm\<lparr>S := (S vm)(0 := IS0 vm), GPR := (GPR vm)(29 := ISP vm), PC := IPC vm\<rparr>)"
  using assms by (simp add: Execute_switch_def Decode_def vm_opcodes Let_def)

lemmas decode_defs =
  Decode_def DecodeOpcode_def DecodeRA_def DecodeRB_def DecodeRC_def DecodeImm17_def
  DecodeImm22_def SignExtend17_def

lemmas parse_defs =
  ResolveImmediate_def CastToUint32_def ParseInt_def ParseUint_def digit_of_def lower_def

lemma Interrupt_irq_VM: "Interrupt irq_VM 2 = (None, entered_VM)"
  by (simp add: Interrupt_def irq_VM_def entered_VM_def new_VM_def vm_consts Let_def
      fun_upd_twist)

lemma Fetch_entered_VM: "Fetch entered_VM = (Inr 0x50000000, fetched_VM)"
  by (simp add: Fetch_def Memory_def load_def fetched_VM_def entered_VM_def irq_VM_def
      new_VM_def vm_consts Let_def)

lemma Execute_switch_fetched_VM:
  "Execute_switch fetched_VM 0x50000000 =
     (None, fetched_VM\<lparr>S := (S fetched_VM)(0 := 7), GPR := (GPR fetched_VM)(29 := 500),
                        PC := 9\<rparr>)"
proof -
  have "DecodeOpcode 0x50000000 = vm_OpcodeIRET"
    by (simp add: DecodeOpcode_def vm_opcodes)
  moreover have "S fetched_VM 0 AND StatusUserMode = 0"
    by (simp add: fetched_VM_def entered_VM_def)
  ultimately have "Execute_switch fetched_VM 0x50000000 =
      (None, fetched_VM\<lparr>S := (S fetched_VM)(0 := IS0 fetched_VM),
                         GPR := (GPR fetched_VM)(29 := ISP fetched_VM),
                         PC := IPC fetched_VM\<rparr>)"
    by (rule Execute_switch_IRET)
  then show ?thesis by (simp add: fetched_VM_def entered_VM_def)
qed

section \<open>The properties\<close>

subsection \<open>The shared encoding\<close>

text \<open>
  C1. The assembler and the CPU are to share the opcode numbering, so that the opcode
  field of the word the encoder emits for a mnemonic is the value on which \<open>Execute\<close>
  dispatches for that operation. The encoder of instruction.go numbers \<open>JALR\<close>, \<open>WSR\<close>
  and \<open>RSR\<close> 8, 9 and 10, where the CPU has 0, 8 and 9: the word it emits for
  \<open>jalr r1 r2\<close> carries opcode 8, which the CPU decodes as \<open>WSR\<close> and, the
  status-register index being out of range, answers with \<open>ErrNotPermitted\<close> instead of
  jumping.
\<close>

theorem asm_jalr_is_vm_wsr:
  "Encode Map.empty (InstructionJALR 1 None 1 2) 0 = Inr 0x40440000 \<and>
   DecodeOpcode 0x40440000 = vm_OpcodeWSR \<and>
   DecodeOpcode 0x40440000 \<noteq> vm_OpcodeJALR \<and>
   fst (Execute quiet_world new_VM 0x40440000) = Some ErrNotPermitted"
  by (simp add: asm_opcodes Execute_def Execute_switch_def decode_defs vm_opcodes vm_consts
      new_VM_def)

text \<open>
  C2. The word the encoder emits for \<open>wsr rA s\<close>, and for \<open>rsr rA s\<close>, is to carry the
  status-register index \<open>s\<close> in its 22-bit immediate field. The encoder shifts the
  operand right by ten bits, as it does for \<open>lui\<close>: for \<open>wsr r1 1\<close> and \<open>rsr r1 1\<close>
  the field is 0, not 1.
\<close>

theorem asm_wsr_index_lost:
  "Encode Map.empty (InstructionWSR 1 None 1 ''1'') 0 = Inr 0x48400000 \<and>
   DecodeImm22 0x48400000 = 0 \<and>
   Encode Map.empty (InstructionRSR 1 None 1 ''1'') 0 = Inr 0x50400000 \<and>
   DecodeImm22 0x50400000 = 0"
  by (simp add: asm_opcodes parse_defs DecodeImm22_def)

text \<open>
  C3, as stated: every word with a defined opcode is encoded back to itself from its
  decoded fields. It fails on the word \<open>0x08000020\<close>, an \<open>add r0 r0 r0\<close> with one of
  the twelve unused bits of the RRR format set: \<open>Decode\<close> does not return those
  bits, and the encoder emits them as zero.
\<close>

theorem reencode_counterexample:
  "DecodeOpcode 0x08000020 = vm_OpcodeADD \<and>
   Reencode Map.empty 0 [] 0x08000020 = Some (Inr 0x08000000) \<and>
   Reencode Map.empty 0 [] 0x08000020 \<noteq> Some (Inr 0x08000020)"
  by (simp add: Reencode_def decode_defs vm_opcodes asm_opcodes)

text \<open>
  C3, amended. A word whose opcode is \<open>ADD\<close> or \<open>NAND\<close> and whose unused bits 5 to 16
  are zero, and every word whose opcode is \<open>ADDI\<close>, \<open>SW\<close> or \<open>LW\<close>, is encoded back to
  itself from its decoded fields, whatever the labels and the address; the immediate
  operand is any string that \<open>ParseInt\<close> reads as the decoded, sign-extended 17-bit
  field.
\<close>

theorem reencode_roundtrip:
  assumes "(DecodeOpcode w \<in> {vm_OpcodeADD, vm_OpcodeNAND} \<and> w AND 0x1FFE0 = 0) \<or>
           (DecodeOpcode w \<in> {vm_OpcodeADDI, vm_OpcodeSW, vm_OpcodeLW} \<and>
            ParseInt imm = Some (sint (DecodeImm17 w)))"
  shows "Reencode labels pc imm w = Some (Inr w)"
proof -
  consider
      (rrr) k where "k \<in> {1, 3}" "DecodeOpcode w = k" "w AND 0x1FFE0 = 0"
    | (rri) k where "k \<in> {2, 5, 6}" "DecodeOpcode w = k"
        "ParseInt imm = Some (sint (DecodeImm17 w))"
    using assms by (auto simp: vm_opcodes)
  then show ?thesis
  proof cases
    case rrr
    from recompose_RRR [OF rrr(3)] rrr(1,2) show ?thesis
      by (auto simp: Reencode_def Decode_def vm_opcodes asm_opcodes)
  next
    case rri
    from recompose_RRI [of w] rri(1,2) show ?thesis
      by (auto simp: Reencode_def Decode_def vm_opcodes asm_opcodes
            ResolveImmediate_imm17 [OF rri(3)] DecodeImm17_low or.assoc)
  qed
qed

theorem reencode_roundtrip_witness:
  "DecodeOpcode 0x1045FFFD = vm_OpcodeADDI \<and>
   ParseInt ''-3'' = Some (sint (DecodeImm17 0x1045FFFD)) \<and>
   Reencode Map.empty 7 ''-3'' 0x1045FFFD = Some (Inr 0x1045FFFD) \<and>
   DecodeOpcode 0x08440003 = vm_OpcodeADD \<and> (0x08440003 :: u32) AND 0x1FFE0 = 0 \<and>
   Reencode Map.empty 7 [] 0x08440003 = Some (Inr 0x08440003)"
proof -
  have a: "DecodeOpcode 0x1045FFFD = vm_OpcodeADDI"
    by (simp add: decode_defs vm_opcodes)
  have b: "ParseInt ''-3'' = Some (sint (DecodeImm17 0x1045FFFD))"
    by (simp add: parse_defs decode_defs)
  have c: "DecodeOpcode 0x08440003 = vm_OpcodeADD"
    by (simp add: decode_defs vm_opcodes)
  have d: "(0x08440003 :: u32) AND 0x1FFE0 = 0"
    by simp
  from a b have "Reencode Map.empty 7 ''-3'' 0x1045FFFD = Some (Inr 0x1045FFFD)"
    by (intro reencode_roundtrip) simp
  moreover from c d have "Reencode Map.empty 7 [] 0x08440003 = Some (Inr 0x08440003)"
    by (intro reencode_roundtrip) simp
  ultimately show ?thesis using a b c d by simp
qed

subsection \<open>Interrupts\<close>

text \<open>
  C4. Let interrupt entry succeed, let the word fetched next, the handler's first
  instruction, be an \<open>IRET\<close>, and let the poll at the end of that instruction raise no
  interrupt (from the state the instruction itself leaves). Then after \<open>Execute\<close>
  the values of \<open>PC\<close>, \<open>GPR[29]\<close> and \<open>S[0]\<close> are those from before the interrupt.
  Kernel mode need not be assumed: interrupt entry has cleared \<open>UserMode\<close>.
\<close>

theorem iret_restores:
  assumes entry: "Interrupt vm code = (None, vm1)"
    and fetch: "Fetch vm1 = (Inr ci, vm2)"
    and iret: "DecodeOpcode ci = vm_OpcodeIRET"
    and poll: "\<not> poll_raises e (snd (Execute_switch vm2 ci))"
  shows "PC (snd (Execute e vm2 ci)) = PC vm \<and>
         GPR (snd (Execute e vm2 ci)) 29 = GPR vm 29 \<and>
         S (snd (Execute e vm2 ci)) 0 = S vm 0"
proof -
  note vm1 = Interrupt_success [OF entry]
  note vm2 = Fetch_success [OF fetch]
  have kernel: "S vm2 0 AND StatusUserMode = 0"
    by (simp add: vm2 vm1 vm_consts and.assoc)
  define vm3 where
    "vm3 = vm2\<lparr>S := (S vm2)(0 := IS0 vm2), GPR := (GPR vm2)(29 := ISP vm2), PC := IPC vm2\<rparr>"
  have sw: "Execute_switch vm2 ci = (None, vm3)"
    unfolding vm3_def by (rule Execute_switch_IRET [OF iret kernel])
  have restored: "PC vm3 = PC vm \<and> GPR vm3 29 = GPR vm 29 \<and> S vm3 0 = S vm 0"
    by (simp add: vm3_def vm2 vm1)
  from poll sw have "\<not> poll_raises e vm3" by simp
  note kept = MaybeInterrupt_not_raised [OF this]
  obtain r vm4 where mi: "MaybeInterrupt e vm3 = (r, vm4)"
    by (cases "MaybeInterrupt e vm3")
  with kept have "PC vm4 = PC vm3 \<and> S vm4 = S vm3 \<and> GPR vm4 = GPR vm3" by simp
  with restored sw mi show ?thesis by (simp add: Execute_def)
qed

theorem iret_restores_witness:
  "Interrupt irq_VM 2 = (None, entered_VM) \<and>
   Fetch entered_VM = (Inr 0x50000000, fetched_VM) \<and>
   DecodeOpcode 0x50000000 = vm_OpcodeIRET \<and>
   \<not> poll_raises quiet_world (snd (Execute_switch fetched_VM 0x50000000)) \<and>
   PC irq_VM = 9 \<and> GPR irq_VM 29 = 500 \<and> S irq_VM 0 = 7 \<and>
   PC entered_VM = 4000 \<and> GPR entered_VM 29 = 2048 \<and> S entered_VM 0 = 0 \<and>
   PC (snd (Execute quiet_world fetched_VM 0x50000000)) = 9 \<and>
   GPR (snd (Execute quiet_world fetched_VM 0x50000000)) 29 = 500 \<and>
   S (snd (Execute quiet_world fetched_VM 0x50000000)) 0 = 7"
proof -
  have iret: "DecodeOpcode 0x50000000 = vm_OpcodeIRET"
    by (simp add: DecodeOpcode_def vm_opcodes)
  have poll: "\<not> poll_raises quiet_world (snd (Execute_switch fetched_VM 0x50000000))"
    by (simp only: Execute_switch_fetched_VM snd_conv)
       (simp add: poll_raises_def clock_due_def fetched_VM_def entered_VM_def irq_VM_def
          new_VM_def)
  have before: "PC irq_VM = 9 \<and> GPR irq_VM 29 = 500 \<and> S irq_VM 0 = 7"
    by (simp add: irq_VM_def new_VM_def)
  have between: "PC entered_VM = 4000 \<and> GPR entered_VM 29 = 2048 \<and> S entered_VM 0 = 0"
    by (simp add: entered_VM_def)
  from iret_restores [OF Interrupt_irq_VM Fetch_entered_VM iret poll, of ] before between
  show ?thesis
    using Interrupt_irq_VM Fetch_entered_VM iret poll by simp
qed

text \<open>
  C5. Whenever \<open>Interrupt(code)\<close> succeeds, the shadows hold the old \<open>S[0]\<close>,
  \<open>GPR[29]\<close> and \<open>PC\<close>, \<open>GPR[29]\<close> is \<open>S[3]\<close>, the bits \<open>UserMode\<close>, \<open>Interrupts\<close>
  and \<open>Paging\<close> of \<open>S[0]\<close> are clear (the other bits keep their values), and \<open>PC\<close>
  is \<open>M[S[2] + c]\<close>, where \<open>c\<close> is \<open>code\<close> when \<open>code < 16\<close> and 0 otherwise.
\<close>

theorem interrupt_entry:
  assumes "Interrupt vm code = (None, vm')"
  shows "IS0 vm' = S vm 0 \<and> ISP vm' = GPR vm 29 \<and> IPC vm' = PC vm \<and>
         GPR vm' 29 = S vm 3 \<and>
         S vm' 0 AND StatusUserMode = 0 \<and>
         S vm' 0 AND StatusInterrupts = 0 \<and>
         S vm' 0 AND StatusPaging = 0 \<and>
         S vm' 0 = S vm 0 AND NOT (StatusUserMode OR StatusInterrupts OR StatusPaging) \<and>
         PC vm' = M vm (S vm 2 + (if code < 16 then code else 0))"
proof -
  note vm' = Interrupt_success [OF assms]
  have s0: "S vm' 0 = S vm 0 AND NOT (StatusUserMode OR StatusInterrupts OR StatusPaging)"
    by (subst vm') simp
  have fl: "S vm' 0 AND StatusUserMode = 0" "S vm' 0 AND StatusInterrupts = 0"
    "S vm' 0 AND StatusPaging = 0"
    by (simp_all only: s0 flags_cleared)
  have "IS0 vm' = S vm 0 \<and> ISP vm' = GPR vm 29 \<and> IPC vm' = PC vm \<and>
        GPR vm' 29 = S vm 3 \<and> PC vm' = M vm (S vm 2 + (if code < 16 then code else 0))"
    by (subst (1 2 3 4 5) vm') simp
  with fl s0 show ?thesis by blast
qed

theorem interrupt_entry_witness:
  "Interrupt irq_VM 2 = (None, entered_VM) \<and>
   S irq_VM 0 = 7 \<and> GPR irq_VM 29 = 500 \<and> PC irq_VM = 9 \<and> S irq_VM 3 = 2048 \<and>
   M irq_VM (S irq_VM 2 + 2) = 4000 \<and>
   IS0 entered_VM = 7 \<and> ISP entered_VM = 500 \<and> IPC entered_VM = 9 \<and>
   GPR entered_VM 29 = 2048 \<and> S entered_VM 0 = 0 \<and> PC entered_VM = 4000"
proof -
  have before: "S irq_VM 0 = 7 \<and> GPR irq_VM 29 = 500 \<and> PC irq_VM = 9 \<and>
      S irq_VM 3 = 2048 \<and> S irq_VM 2 = 1024 \<and> M irq_VM 1026 = 4000"
    by (simp add: irq_VM_def new_VM_def)
  have flags: "(7 :: u32) AND NOT (StatusUserMode OR StatusInterrupts OR StatusPaging) = 0"
    by (simp add: vm_consts)
  from interrupt_entry [OF Interrupt_irq_VM] before flags
  have "IS0 entered_VM = 7 \<and> ISP entered_VM = 500 \<and> IPC entered_VM = 9 \<and>
        GPR entered_VM 29 = 2048 \<and> S entered_VM 0 = 0 \<and> PC entered_VM = 4000"
    by simp
  with before Interrupt_irq_VM show ?thesis by simp
qed

text \<open>
  C6, as stated: when \<open>Interrupt(code)\<close> returns an error, the whole machine state is
  as it was before the call. It fails when the vector table lookup is out of range:
  the bound is checked after the shadows, \<open>GPR[29]\<close> and \<open>S[0]\<close> have been written.
  With the vector table at \<open>1 << 20\<close> the call returns \<open>ErrSIGSEGV\<close> and has
  changed \<open>ISP\<close> from 0 to 5 and \<open>GPR[29]\<close> from 5 to 0.
\<close>

theorem interrupt_error_counterexample:
  "fst (Interrupt badvec_VM 0) = Some ErrSIGSEGV \<and>
   ISP badvec_VM = 0 \<and> ISP (snd (Interrupt badvec_VM 0)) = 5 \<and>
   GPR badvec_VM 29 = 5 \<and> GPR (snd (Interrupt badvec_VM 0)) 29 = 0 \<and>
   snd (Interrupt badvec_VM 0) \<noteq> badvec_VM"
proof -
  have all: "fst (Interrupt badvec_VM 0) = Some ErrSIGSEGV \<and>
        ISP badvec_VM = 0 \<and> ISP (snd (Interrupt badvec_VM 0)) = 5 \<and>
        GPR badvec_VM 29 = 5 \<and> GPR (snd (Interrupt badvec_VM 0)) 29 = 0"
    by (simp add: Interrupt_def badvec_VM_def new_VM_def vm_consts Let_def)
  then have vals: "ISP badvec_VM = 0" "ISP (snd (Interrupt badvec_VM 0)) = 5"
    by simp_all
  have "snd (Interrupt badvec_VM 0) \<noteq> badvec_VM"
  proof
    assume "snd (Interrupt badvec_VM 0) = badvec_VM"
    then have "ISP (snd (Interrupt badvec_VM 0)) = ISP badvec_VM" by simp
    with vals show False by simp
  qed
  with all show ?thesis by simp
qed

text \<open>
  C6, amended. When \<open>Interrupt(code)\<close> returns an error, the error is \<open>ErrSIGSEGV\<close>
  and \<open>PC\<close> and the memory are as before the call. If \<open>S[2]\<close> or \<open>S[3]\<close> is not a
  multiple of 1024, the whole machine state is as before the call. Otherwise the
  vector table index \<open>S[2] + c\<close> is out of range, and the state is the one before the
  call with the shadows saved, \<open>GPR[29]\<close> set to \<open>S[3]\<close> and the three mode bits of
  \<open>S[0]\<close> cleared.
\<close>

theorem interrupt_error_state:
  assumes "Interrupt vm code = (Some err, vm')"
  shows "err = ErrSIGSEGV \<and> PC vm' = PC vm \<and> M vm' = M vm \<and>
         (if \<not> 1024 dvd unat (S vm 2) \<or> \<not> 1024 dvd unat (S vm 3) then vm' = vm
          else 2 ^ 20 \<le> unat (S vm 2 + (if code < 16 then code else 0)) \<and>
               vm' = vm\<lparr>IS0 := S vm 0, ISP := GPR vm 29, IPC := PC vm,
                          GPR := (GPR vm)(29 := S vm 3),
                          S := (S vm)(0 := S vm 0 AND
                                 NOT (StatusUserMode OR StatusInterrupts OR StatusPaging))\<rparr>)"
proof (cases "S vm 2 AND 0x3FF \<noteq> 0 \<or> S vm 3 AND 0x3FF \<noteq> 0")
  case True
  with Interrupt_failure [OF assms] have "err = ErrSIGSEGV \<and> vm' = vm"
    by simp
  with True show ?thesis
    by (auto simp: aligned_iff)
next
  case False
  with assms have
    "err = ErrSIGSEGV \<and> MemorySize \<le> S vm 2 + (if code < 16 then code else 0) \<and>
     vm' = vm\<lparr>IS0 := S vm 0, ISP := GPR vm 29, IPC := PC vm,
                GPR := (GPR vm)(29 := S vm 3),
                S := (S vm)(0 := S vm 0 AND
                       NOT (StatusUserMode OR StatusInterrupts OR StatusPaging))\<rparr>"
    by (auto simp: Interrupt_def Let_def IrqHALT_def split: if_splits)
  with False show ?thesis
    by (auto simp: aligned_iff MemorySize_le)
qed

theorem interrupt_error_state_witness:
  "Interrupt misaligned_VM 1 = (Some ErrSIGSEGV, misaligned_VM) \<and>
   \<not> 1024 dvd unat (S misaligned_VM 2) \<and>
   fst (Interrupt badvec_VM 0) = Some ErrSIGSEGV \<and>
   1024 dvd unat (S badvec_VM 2) \<and> 1024 dvd unat (S badvec_VM 3) \<and>
   PC (snd (Interrupt badvec_VM 0)) = PC badvec_VM \<and>
   M (snd (Interrupt badvec_VM 0)) = M badvec_VM \<and>
   IS0 (snd (Interrupt badvec_VM 0)) = S badvec_VM 0 \<and>
   ISP (snd (Interrupt badvec_VM 0)) = 5 \<and>
   GPR (snd (Interrupt badvec_VM 0)) 29 = 0"
proof -
  have m: "Interrupt misaligned_VM 1 = (Some ErrSIGSEGV, misaligned_VM)"
    by (simp add: Interrupt_def misaligned_VM_def new_VM_def)
  have b: "Interrupt badvec_VM 0 = (Some ErrSIGSEGV, snd (Interrupt badvec_VM 0))"
    by (simp add: Interrupt_def badvec_VM_def new_VM_def vm_consts Let_def)
  have al: "\<not> 1024 dvd unat (S misaligned_VM 2) \<and>
            1024 dvd unat (S badvec_VM 2) \<and> 1024 dvd unat (S badvec_VM 3)"
    by (simp add: misaligned_VM_def badvec_VM_def new_VM_def)
  have vals: "GPR badvec_VM 29 = 5 \<and> S badvec_VM 3 = 0"
    by (simp add: badvec_VM_def new_VM_def)
  from interrupt_error_state [OF m] interrupt_error_state [OF b] al vals m b
  show ?thesis by (simp split: if_splits)
qed

subsection \<open>Paging\<close>

text \<open>
  C7. An access with \<open>Paging\<close> set, to an address that is no MMIO register (not the
  clock register and, when a TTY is attached, none of its three registers), asking
  for flags among \<open>R\<close>, \<open>W\<close> and \<open>X\<close>: it faults with \<open>ErrSIGSEGV\<close> if \<open>S[1]\<close> is
  not a multiple of 1024 or the index \<open>S[1] + (addr >> 10)\<close> of the page entry is at
  least \<open>2^20\<close>; it faults with \<open>ErrNotPermitted\<close> unless every requested flag is
  set in the entry; otherwise it resolves to the physical address
  \<open>(entry & 0xFFFFFC00) | (addr & 0x3FF)\<close>, or faults with \<open>ErrSIGSEGV\<close> if that is at
  least \<open>2^20\<close>. The index is a \<open>uint32\<close> sum, as in the source.
\<close>

theorem Memory_paging:
  assumes paging: "S vm 0 AND StatusPaging \<noteq> 0"
    and no_clock: "addr \<noteq> MMClockFrequency"
    and no_tty: "TTY vm = None \<or> addr \<notin> {MMTTYStatus, MMTTYIn, MMTTYOut}"
    and rwx: "flags AND (MemoryRead OR MemoryWrite OR MemoryExec) = flags"
  shows "Memory vm addr flags =
     (let idx = S vm 1 + drop_bit 10 addr;
          entry = M vm idx;
          phys = (entry AND 0xFFFFFC00) OR (addr AND 0x3FF)
      in if \<not> 1024 dvd unat (S vm 1) \<or> 2 ^ 20 \<le> unat idx then Inl ErrSIGSEGV
         else if entry AND flags \<noteq> flags then Inl ErrNotPermitted
         else if 2 ^ 20 \<le> unat phys then Inl ErrSIGSEGV
         else Inr (RefM phys))"
proof (cases "TTY vm")
  case None
  then show ?thesis
    unfolding Memory_def Let_def
    by (simp add: no_clock paging flags_rwx [OF rwx] page_add_or MemorySize_le aligned_iff)
next
  case (Some tty)
  with no_tty have "addr \<noteq> MMTTYStatus" "addr \<noteq> MMTTYIn" "addr \<noteq> MMTTYOut"
    by auto
  then show ?thesis
    unfolding Memory_def Let_def
    by (simp add: no_clock paging flags_rwx [OF rwx] page_add_or MemorySize_le aligned_iff)
qed

theorem Memory_paging_witness:
  "S paging_VM 0 AND StatusPaging \<noteq> 0 \<and> (0x407 :: u32) \<noteq> MMClockFrequency \<and>
   TTY paging_VM = None \<and>
   MemoryWrite AND (MemoryRead OR MemoryWrite OR MemoryExec) = MemoryWrite \<and>
   MemoryExec AND (MemoryRead OR MemoryWrite OR MemoryExec) = MemoryExec \<and>
   Memory paging_VM 0x407 MemoryWrite = Inr (RefM 0x2807) \<and>
   Memory paging_VM 0x407 MemoryExec = Inl ErrNotPermitted"
proof -
  have p: "S paging_VM 0 AND StatusPaging \<noteq> 0"
    by (simp add: paging_VM_def new_VM_def vm_consts)
  have c: "(0x407 :: u32) \<noteq> MMClockFrequency" by (simp add: vm_consts)
  have t: "TTY paging_VM = None" by (simp add: paging_VM_def new_VM_def)
  have w: "MemoryWrite AND (MemoryRead OR MemoryWrite OR MemoryExec) = MemoryWrite"
    by (simp add: vm_consts)
  have x: "MemoryExec AND (MemoryRead OR MemoryWrite OR MemoryExec) = MemoryExec"
    by (simp add: vm_consts)
  have "Memory paging_VM 0x407 MemoryWrite = Inr (RefM 0x2807)"
    using Memory_paging [OF p c disjI1 [OF t] w]
    by (simp add: paging_VM_def new_VM_def vm_consts Let_def)
  moreover have "Memory paging_VM 0x407 MemoryExec = Inl ErrNotPermitted"
    using Memory_paging [OF p c disjI1 [OF t] x]
    by (simp add: paging_VM_def new_VM_def vm_consts Let_def)
  ultimately show ?thesis using p c t w x by simp
qed

subsection \<open>Execute\<close>

text \<open>
  C8. \<open>Execute(w)\<close> returns \<open>ErrHalted\<close> exactly when \<open>w\<close> decodes to \<open>JALR\<close> with
  \<open>rA = 0\<close> and \<open>rB = 0\<close> and the flag \<open>Interrupts\<close> of \<open>S[0]\<close> is clear. In
  particular the all-zero word halts a machine whose interrupts are disabled, and
  no other instruction, and neither a fault nor the interrupt poll, gives \<open>ErrHalted\<close>.
\<close>

theorem halted_iff:
  "(fst (Execute e vm w) = Some ErrHalted) =
     (DecodeOpcode w = vm_OpcodeJALR \<and> DecodeRA w = 0 \<and> DecodeRB w = 0 \<and>
      S vm 0 AND StatusInterrupts = 0) \<and>
   (S vm 0 AND StatusInterrupts = 0 \<longrightarrow> fst (Execute e vm 0) = Some ErrHalted)"
proof -
  have sw: "\<And>w. (fst (Execute e vm w) = Some ErrHalted) =
      (fst (Execute_switch vm w) = Some ErrHalted)"
  proof -
    fix w
    obtain r vm1 where s: "Execute_switch vm w = (r, vm1)"
      by (cases "Execute_switch vm w")
    show "(fst (Execute e vm w) = Some ErrHalted) =
        (fst (Execute_switch vm w) = Some ErrHalted)"
    proof (cases r)
      case None
      obtain r2 vm2 where mi: "MaybeInterrupt e vm1 = (r2, vm2)"
        by (cases "MaybeInterrupt e vm1")
      with MaybeInterrupt_not_Halted [of e vm1] have "r2 \<noteq> Some ErrHalted" by simp
      with None s mi show ?thesis by (simp add: Execute_def)
    next
      case (Some err)
      with s show ?thesis by (simp add: Execute_def)
    qed
  qed
  have zero: "DecodeOpcode 0 = vm_OpcodeJALR \<and> DecodeRA 0 = 0 \<and> DecodeRB 0 = 0"
    by (simp add: DecodeOpcode_def DecodeRA_def DecodeRB_def vm_opcodes)
  show ?thesis
    by (simp add: sw Execute_switch_Halted zero)
qed

theorem halted_iff_witness:
  "S new_VM 0 AND StatusInterrupts = 0 \<and>
   fst (Execute quiet_world new_VM 0) = Some ErrHalted \<and>
   DecodeOpcode 0x00440000 = vm_OpcodeJALR \<and> DecodeRA 0x00440000 = 1 \<and>
   fst (Execute quiet_world new_VM 0x00440000) \<noteq> Some ErrHalted \<and>
   DecodeOpcode 0x08000000 = vm_OpcodeADD \<and>
   fst (Execute quiet_world new_VM 0x08000000) \<noteq> Some ErrHalted \<and>
   S irq_VM 0 AND StatusInterrupts = 4 \<and>
   fst (Execute quiet_world irq_VM 0) \<noteq> Some ErrHalted"
proof -
  have a: "S new_VM 0 AND StatusInterrupts = 0" "S irq_VM 0 AND StatusInterrupts = 4"
    by (simp_all add: new_VM_def irq_VM_def vm_consts)
  have b: "DecodeOpcode 0x00440000 = vm_OpcodeJALR" "DecodeRA 0x00440000 = 1"
    "DecodeOpcode 0x08000000 = vm_OpcodeADD"
    "DecodeOpcode 0 = vm_OpcodeJALR" "DecodeRA 0 = 0" "DecodeRB 0 = 0"
    by (simp_all add: DecodeOpcode_def DecodeRA_def DecodeRB_def vm_opcodes)
  from halted_iff [of quiet_world new_VM 0] halted_iff [of quiet_world new_VM "0x00440000"]
    halted_iff [of quiet_world new_VM "0x08000000"] halted_iff [of quiet_world irq_VM 0] a b
  show ?thesis by (simp add: vm_opcodes)
qed

text \<open>
  C9. After \<open>Execute\<close>, whatever the state, the word and the world, and whether it
  returns \<open>nil\<close>, \<open>ErrHalted\<close> or a fault, \<open>GPR[0]\<close> is 0: also when the instruction
  names \<open>r0\<close> as its destination.
\<close>

theorem r0_is_zero: "GPR (snd (Execute e vm ci)) 0 = 0"
  by (simp add: Execute_def split: prod.splits option.splits)

theorem r0_is_zero_witness:
  "DecodeOpcode 0x10000005 = vm_OpcodeADDI \<and> DecodeRA 0x10000005 = 0 \<and>
   GPR (snd (Execute_switch new_VM 0x10000005)) 0 = 5 \<and>
   GPR (snd (Execute quiet_world new_VM 0x10000005)) 0 = 0 \<and>
   fst (Execute quiet_world new_VM 0) = Some ErrHalted \<and>
   GPR (snd (Execute quiet_world new_VM 0)) 0 = 0"
proof -
  have "DecodeOpcode 0x10000005 = vm_OpcodeADDI \<and> DecodeRA 0x10000005 = 0 \<and>
        GPR (snd (Execute_switch new_VM 0x10000005)) 0 = 5"
    by (simp add: Execute_switch_def decode_defs vm_opcodes new_VM_def)
  moreover have "fst (Execute quiet_world new_VM 0) = Some ErrHalted"
    by (simp add: Execute_def Execute_switch_def decode_defs vm_opcodes vm_consts new_VM_def)
  ultimately show ?thesis
    using r0_is_zero [of quiet_world new_VM "0x10000005"] r0_is_zero [of quiet_world new_VM 0]
    by simp
qed

text \<open>
  C10. A word whose opcode is none of the eleven defined ones (11 to 31) is a silent
  no-op: when interrupts are off, or no device has an interrupt pending at the poll,
  \<open>Execute\<close> returns no error and leaves \<open>PC\<close>, the memory, the status registers
  and \<open>GPR[1..31]\<close> unchanged; \<open>GPR[0]\<close> is set to 0.
\<close>

theorem undefined_opcode_is_nop:
  assumes "DecodeOpcode w > 10"
    and "S vm 0 AND StatusInterrupts = 0 \<or> no_device_pending e vm"
  shows "fst (Execute e vm w) = None \<and>
         PC (snd (Execute e vm w)) = PC vm \<and>
         M (snd (Execute e vm w)) = M vm \<and>
         S (snd (Execute e vm w)) = S vm \<and>
         (\<forall>i. i \<noteq> 0 \<longrightarrow> GPR (snd (Execute e vm w)) i = GPR vm i) \<and>
         GPR (snd (Execute e vm w)) 0 = 0"
  using MaybeInterrupt_quiet [OF assms(2)]
  by (cases "MaybeInterrupt e vm")
     (simp add: Execute_def Execute_switch_undefined [OF assms(1)])

theorem undefined_opcode_is_nop_witness:
  "DecodeOpcode 0xF8000000 = 31 \<and> S irq_VM 0 AND StatusInterrupts = 4 \<and>
   no_device_pending quiet_world irq_VM \<and>
   fst (Execute quiet_world irq_VM 0xF8000000) = None \<and>
   PC (snd (Execute quiet_world irq_VM 0xF8000000)) = 9 \<and>
   M (snd (Execute quiet_world irq_VM 0xF8000000)) = M irq_VM \<and>
   S (snd (Execute quiet_world irq_VM 0xF8000000)) = S irq_VM \<and>
   GPR (snd (Execute quiet_world irq_VM 0xF8000000)) 29 = 500 \<and>
   GPR (snd (Execute quiet_world irq_VM 0xF8000000)) 0 = 0"
proof -
  have op: "DecodeOpcode 0xF8000000 = 31"
    by (simp add: DecodeOpcode_def)
  then have gt: "DecodeOpcode 0xF8000000 > 10" by simp
  have quiet: "no_device_pending quiet_world irq_VM"
    by (simp add: no_device_pending_def clock_due_def irq_VM_def new_VM_def)
  have vals: "S irq_VM 0 AND StatusInterrupts = 4 \<and> PC irq_VM = 9 \<and> GPR irq_VM 29 = 500"
    by (simp add: irq_VM_def new_VM_def vm_consts)
  from undefined_opcode_is_nop [OF gt disjI2 [OF quiet]] op quiet vals
  show ?thesis by simp
qed

section \<open>The same properties on the earlier revision\<close>

lemma Memory_old_not_Halted: "Memory_old vm off flags \<noteq> Inl ErrHalted"
  by (simp add: Memory_old_def Let_def)

lemma Memory_old_case_Halted:
  "(fst (case Memory_old vm off flags of Inl err \<Rightarrow> (Some err, vm') | Inr mptr \<Rightarrow> g mptr)
      = Some ErrHalted) =
   (\<exists>m. Memory_old vm off flags = Inr m \<and> fst (g m) = Some ErrHalted)"
  using Memory_old_not_Halted [of vm off flags]
  by (cases "Memory_old vm off flags") auto

text \<open>
  \<open>Execute\<close> of pkg/vm/vm.go returns \<open>ErrHalted\<close> exactly for \<open>JALR\<close> with
  \<open>rA = 0\<close>, \<open>rB = 0\<close> and \<open>Interrupts\<close> clear.
\<close>

theorem old_halted_iff:
  "(fst (Execute_old vm w) = Some ErrHalted) =
     (DecodeOpcode w = vm_OpcodeJALR \<and> DecodeRA w = 0 \<and> DecodeRB w = 0 \<and>
      S vm 0 AND StatusInterrupts = 0)"
proof -
  have "(fst (Execute_old_switch vm w) = Some ErrHalted) =
     (DecodeOpcode w = vm_OpcodeJALR \<and> DecodeRA w = 0 \<and> DecodeRB w = 0 \<and>
      S vm 0 AND StatusInterrupts = 0)"
  proof (cases "DecodeOpcode w = vm_OpcodeJALR")
    case True
    then show ?thesis
      by (auto simp: Execute_old_switch_def Decode_def Let_def)
  next
    case False
    have "fst (Execute_old_switch vm w) \<noteq> Some ErrHalted"
      using False
      by (simp add: Execute_old_switch_def Decode_def Let_def vm_opcodes
          Memory_old_case_Halted)
    with False show ?thesis by simp
  qed
  then show ?thesis
    by (cases "Execute_old_switch vm w") (simp add: Execute_old_def)
qed

theorem old_halted_iff_witness:
  "fst (Execute_old new_VM 0) = Some ErrHalted \<and>
   fst (Execute_old new_VM 0x08000000) \<noteq> Some ErrHalted \<and>
   fst (Execute_old irq_VM 0) \<noteq> Some ErrHalted"
proof -
  have a: "S new_VM 0 AND StatusInterrupts = 0" "S irq_VM 0 AND StatusInterrupts = 4"
    by (simp_all add: new_VM_def irq_VM_def vm_consts)
  have b: "DecodeOpcode 0x08000000 = vm_OpcodeADD"
    "DecodeOpcode 0 = vm_OpcodeJALR" "DecodeRA 0 = 0" "DecodeRB 0 = 0"
    by (simp_all add: DecodeOpcode_def DecodeRA_def DecodeRB_def vm_opcodes)
  from old_halted_iff [of new_VM 0] old_halted_iff [of new_VM "0x08000000"]
    old_halted_iff [of irq_VM 0] a b
  show ?thesis by (simp add: vm_opcodes)
qed

text \<open>After \<open>Execute\<close> of pkg/vm/vm.go, \<open>GPR[0]\<close> is 0.\<close>

theorem old_r0_is_zero: "GPR (snd (Execute_old vm ci)) 0 = 0"
  by (simp add: Execute_old_def split: prod.splits)

theorem old_r0_is_zero_witness:
  "GPR (snd (Execute_old_switch new_VM 0x10000005)) 0 = 5 \<and>
   GPR (snd (Execute_old new_VM 0x10000005)) 0 = 0"
proof -
  have "GPR (snd (Execute_old_switch new_VM 0x10000005)) 0 = 5"
    by (simp add: Execute_old_switch_def decode_defs vm_opcodes new_VM_def)
  then show ?thesis
    using old_r0_is_zero [of new_VM "0x10000005"] by simp
qed

text \<open>
  In pkg/vm/vm.go a word whose opcode is not defined (10 to 31 in this revision) is
  a no-op in every state: only \<open>GPR[0]\<close> is set to 0.
\<close>

theorem old_undefined_opcode_is_nop:
  assumes "DecodeOpcode w > 9"
  shows "Execute_old vm w = (None, vm\<lparr>GPR := (GPR vm)(0 := 0)\<rparr>)"
proof -
  have "DecodeOpcode w \<noteq> 0" "DecodeOpcode w \<noteq> 1" "DecodeOpcode w \<noteq> 2"
    "DecodeOpcode w \<noteq> 3" "DecodeOpcode w \<noteq> 4" "DecodeOpcode w \<noteq> 5"
    "DecodeOpcode w \<noteq> 6" "DecodeOpcode w \<noteq> 7" "DecodeOpcode w \<noteq> 8"
    "DecodeOpcode w \<noteq> 9"
    using assms by auto
  then show ?thesis
    by (simp add: Execute_old_def Execute_old_switch_def Decode_def vm_opcodes)
qed

theorem old_undefined_opcode_is_nop_witness:
  "DecodeOpcode 0xF8000000 = 31 \<and>
   Execute_old irq_VM 0xF8000000 = (None, irq_VM\<lparr>GPR := (GPR irq_VM)(0 := 0)\<rparr>)"
proof -
  have op: "DecodeOpcode 0xF8000000 = 31"
    by (simp add: DecodeOpcode_def)
  then have "DecodeOpcode 0xF8000000 > 9" by simp
  from old_undefined_opcode_is_nop [OF this] op show ?thesis by simp
qed

text \<open>
  \<open>Memory\<close> of pkg/vm/vm.go with \<open>Paging\<close> set: the same faults and the same
  physical address, for every address (this revision has no MMIO).
\<close>

theorem Memory_old_paging:
  assumes paging: "S vm 0 AND StatusPaging \<noteq> 0"
    and rwx: "flags AND (MemoryRead OR MemoryWrite OR MemoryExec) = flags"
  shows "Memory_old vm addr flags =
     (let idx = S vm 1 + drop_bit 10 addr;
          entry = M vm idx;
          phys = (entry AND 0xFFFFFC00) OR (addr AND 0x3FF)
      in if \<not> 1024 dvd unat (S vm 1) \<or> 2 ^ 20 \<le> unat idx then Inl ErrSIGSEGV
         else if entry AND flags \<noteq> flags then Inl ErrNotPermitted
         else if 2 ^ 20 \<le> unat phys then Inl ErrSIGSEGV
         else Inr (RefM phys))"
  unfolding Memory_old_def Let_def
  by (simp add: paging flags_rwx [OF rwx] page_add_or MemorySize_le aligned_iff)

theorem Memory_old_paging_witness:
  "S paging_VM 0 AND StatusPaging \<noteq> 0 \<and>
   MemoryWrite AND (MemoryRead OR MemoryWrite OR MemoryExec) = MemoryWrite \<and>
   Memory_old paging_VM 0x407 MemoryWrite = Inr (RefM 0x2807)"
proof -
  have p: "S paging_VM 0 AND StatusPaging \<noteq> 0"
    by (simp add: paging_VM_def new_VM_def vm_consts)
  have w: "MemoryWrite AND (MemoryRead OR MemoryWrite OR MemoryExec) = MemoryWrite"
    by (simp add: vm_consts)
  have "Memory_old paging_VM 0x407 MemoryWrite = Inr (RefM 0x2807)"
    using Memory_old_paging [OF p w]
    by (simp add: paging_VM_def new_VM_def vm_consts Let_def)
  then show ?thesis using p w by simp
qed

section \<open>More on the encoder\<close>

lemma DecodeOpcode_fields:
  assumes "drop_bit 22 y = 0"
  shows "DecodeOpcode (push_bit 27 (k AND 0b11111) OR push_bit 22 (ra AND 0b11111) OR y)
           = k AND 0b11111"
proof -
  have y: "\<And>m. 22 \<le> m \<Longrightarrow> \<not> bit y m"
  proof -
    fix m :: nat assume "22 \<le> m"
    then have "bit y m = bit (drop_bit 22 y) (m - 22)"
      by (simp add: bit_drop_bit_eq)
    then show "\<not> bit y m" by (simp add: assms)
  qed
  show ?thesis
    unfolding DecodeOpcode_def mask5
    by (rule bit_word_eqI) (auto simp: bit_simps y)
qed

lemma drop_bit_22_RRI: "drop_bit 22 (push_bit 17 (rb AND 0b11111) OR (v AND 0x1FFFF)) = (0 :: u32)"
  unfolding mask5 mask17
  by (rule bit_word_eqI) (auto simp: bit_simps)

lemma drop_bit_22_RRR: "drop_bit 22 (push_bit 17 (rb AND 0b11111) OR (rc AND 0b11111)) = (0 :: u32)"
  unfolding mask5
  by (rule bit_word_eqI) (auto simp: bit_simps)

lemma drop_bit_22_RI: "drop_bit 22 (drop_bit 10 v) = (0 :: u32)"
  by (rule bit_word_eqI) (auto simp: bit_simps dest: bit_imp_le_length)

text \<open>
  For \<open>add\<close>, \<open>addi\<close>, \<open>nand\<close>, \<open>lui\<close>, \<open>sw\<close>, \<open>lw\<close> and \<open>beq\<close> the opcode field of
  the emitted word is the CPU's opcode of the same operation, whatever the
  operands.
\<close>

theorem asm_opcodes_agree:
  "(Encode labels (InstructionADD ln lb ra rb rc) pc = Inr w \<longrightarrow> DecodeOpcode w = vm_OpcodeADD) \<and>
   (Encode labels (InstructionADDI ln lb ra rb imm) pc = Inr w \<longrightarrow> DecodeOpcode w = vm_OpcodeADDI) \<and>
   (Encode labels (InstructionNAND ln lb ra rb rc) pc = Inr w \<longrightarrow> DecodeOpcode w = vm_OpcodeNAND) \<and>
   (Encode labels (InstructionLUI ln lb ra imm) pc = Inr w \<longrightarrow> DecodeOpcode w = vm_OpcodeLUI) \<and>
   (Encode labels (InstructionSW ln lb ra rb imm) pc = Inr w \<longrightarrow> DecodeOpcode w = vm_OpcodeSW) \<and>
   (Encode labels (InstructionLW ln lb ra rb imm) pc = Inr w \<longrightarrow> DecodeOpcode w = vm_OpcodeLW) \<and>
   (Encode labels (InstructionBEQ ln lb ra rb imm) pc = Inr w \<longrightarrow> DecodeOpcode w = vm_OpcodeBEQ)"
proof -
  have rrr: "\<And>k. DecodeOpcode (0 OR push_bit 27 (k AND 0b11111) OR push_bit 22 (ra AND 0b11111)
               OR push_bit 17 (rb AND 0b11111) OR (rc AND 0b11111)) = k AND 0b11111"
    using DecodeOpcode_fields [OF drop_bit_22_RRR] by simp
  have rri: "\<And>k v. DecodeOpcode ((0 OR push_bit 27 (k AND 0b11111) OR push_bit 22 (ra AND 0b11111)
               OR push_bit 17 (rb AND 0b11111)) OR (v AND 0x1FFFF)) = k AND 0b11111"
    using DecodeOpcode_fields [OF drop_bit_22_RRI] by (simp add: or.assoc)
  have ri: "\<And>k v. DecodeOpcode ((0 OR push_bit 27 (k AND 0b11111) OR push_bit 22 (ra AND 0b11111))
               OR drop_bit 10 v) = k AND 0b11111"
    using DecodeOpcode_fields [OF drop_bit_22_RI] by (simp add: or.assoc)
  have k: "asm_OpcodeADD AND 0b11111 = vm_OpcodeADD" "asm_OpcodeADDI AND 0b11111 = vm_OpcodeADDI"
    "asm_OpcodeNAND AND 0b11111 = vm_OpcodeNAND" "asm_OpcodeLUI AND 0b11111 = vm_OpcodeLUI"
    "asm_OpcodeSW AND 0b11111 = vm_OpcodeSW" "asm_OpcodeLW AND 0b11111 = vm_OpcodeLW"
    "asm_OpcodeBEQ AND 0b11111 = vm_OpcodeBEQ"
    by (simp_all add: asm_opcodes vm_opcodes)
  have "Encode labels (InstructionADD ln lb ra rb rc) pc = Inr w \<longrightarrow> DecodeOpcode w = vm_OpcodeADD"
    using rrr [of asm_OpcodeADD] by (auto simp only: Encode.simps k)
  moreover have "Encode labels (InstructionNAND ln lb ra rb rc) pc = Inr w \<longrightarrow> DecodeOpcode w = vm_OpcodeNAND"
    using rrr [of asm_OpcodeNAND] by (auto simp only: Encode.simps k)
  moreover have "Encode labels (InstructionADDI ln lb ra rb imm) pc = Inr w \<longrightarrow> DecodeOpcode w = vm_OpcodeADDI"
    using rri [of asm_OpcodeADDI] by (auto simp only: Encode.simps Let_def k split: sum.splits)
  moreover have "Encode labels (InstructionSW ln lb ra rb imm) pc = Inr w \<longrightarrow> DecodeOpcode w = vm_OpcodeSW"
    using rri [of asm_OpcodeSW] by (auto simp only: Encode.simps Let_def k split: sum.splits)
  moreover have "Encode labels (InstructionLW ln lb ra rb imm) pc = Inr w \<longrightarrow> DecodeOpcode w = vm_OpcodeLW"
    using rri [of asm_OpcodeLW] by (auto simp only: Encode.simps Let_def k split: sum.splits)
  moreover have "Encode labels (InstructionBEQ ln lb ra rb imm) pc = Inr w \<longrightarrow> DecodeOpcode w = vm_OpcodeBEQ"
    using rri [of asm_OpcodeBEQ] by (auto simp only: Encode.simps Let_def k split: sum.splits)
  moreover have "Encode labels (InstructionLUI ln lb ra imm) pc = Inr w \<longrightarrow> DecodeOpcode w = vm_OpcodeLUI"
    using ri [of asm_OpcodeLUI] by (auto simp only: Encode.simps Let_def k split: sum.splits)
  ultimately show ?thesis by blast
qed

theorem asm_opcodes_agree_witness:
  "Encode Map.empty (InstructionADDI 3 None 1 2 ''-3'') 7 = Inr 0x1045FFFD \<and>
   DecodeOpcode 0x1045FFFD = vm_OpcodeADDI \<and>
   Encode Map.empty (InstructionLUI 3 None 1 ''4096'') 7 = Inr 0x20400004 \<and>
   DecodeOpcode 0x20400004 = vm_OpcodeLUI"
proof -
  have a: "Encode Map.empty (InstructionADDI 3 None 1 2 ''-3'') 7 = Inr 0x1045FFFD"
    by (simp add: asm_opcodes parse_defs)
  have l: "Encode Map.empty (InstructionLUI 3 None 1 ''4096'') 7 = Inr 0x20400004"
    by (simp add: asm_opcodes parse_defs)
  from asm_opcodes_agree [where labels = Map.empty and ln = 3 and lb = None and ra = 1
      and rb = 2 and imm = "''-3''" and pc = 7 and w = "0x1045FFFD"] a
  have "DecodeOpcode 0x1045FFFD = vm_OpcodeADDI" by simp
  moreover from asm_opcodes_agree [where labels = Map.empty and ln = 3 and lb = None
      and ra = 1 and imm = "''4096''" and pc = 7 and w = "0x20400004"] l
  have "DecodeOpcode 0x20400004 = vm_OpcodeLUI" by simp
  ultimately show ?thesis using a l by simp
qed

text \<open>
  For every status-register index \<open>s\<close> from 0 to 3, however it is spelled, and every
  register, the word emitted for \<open>wsr rA s\<close> and for \<open>rsr rA s\<close> has the immediate
  field 0: the index is shifted out.
\<close>

theorem asm_wsr_field_is_zero:
  assumes "ParseInt imm = Some s" and "0 \<le> s" and "s \<le> 3"
  shows "(\<exists>w. Encode labels (InstructionWSR ln lb ra imm) pc = Inr w \<and> DecodeImm22 w = 0) \<and>
         (\<exists>w. Encode labels (InstructionRSR ln lb ra imm) pc = Inr w \<and> DecodeImm22 w = 0)"
proof -
  from assms(2,3) have "s = 0 \<or> s = 1 \<or> s = 2 \<or> s = 3" by arith
  then have res: "ResolveImmediate labels imm 32 ln = Inr (word_of_int s) \<and>
      drop_bit 10 (word_of_int s :: u32) = 0"
    by (auto simp: ResolveImmediate_def CastToUint32_def assms(1))
  have field: "\<And>k. DecodeImm22 (push_bit 27 (k AND 0b11111) OR push_bit 22 (ra AND 0b11111)) = 0"
  proof -
    fix k :: u32
    have m22: "(0x3FFFFF :: u32) = mask 22" by (simp add: mask_eq_exp_minus_1)
    show "DecodeImm22 (push_bit 27 (k AND 0b11111) OR push_bit 22 (ra AND 0b11111)) = 0"
      unfolding DecodeImm22_def mask5 m22
      by (rule bit_word_eqI) (auto simp: bit_simps)
  qed
  show ?thesis
    using field [of asm_OpcodeWSR] field [of asm_OpcodeRSR]
    by (simp add: res)
qed

theorem asm_wsr_field_is_zero_witness:
  "ParseInt ''3'' = Some 3 \<and>
   Encode Map.empty (InstructionWSR 1 None 8 ''3'') 0 = Inr 0x4A000000 \<and>
   DecodeImm22 0x4A000000 = 0"
proof -
  have p: "ParseInt ''3'' = Some 3" by (simp add: parse_defs)
  have e: "Encode Map.empty (InstructionWSR 1 None 8 ''3'') 0 = Inr 0x4A000000"
    by (simp add: asm_opcodes parse_defs)
  from asm_wsr_field_is_zero [OF p, of Map.empty 1 None 8 0] e
  show ?thesis using p by simp
qed

end
